theory Spec2Isabelle
  imports Main
begin

section \<open>JavaScript primitives used by the sources\<close>

text \<open>
  Strings are ASCII character lists. \<open>undefined\<close> is \<open>None\<close> of an option type.
  A result \<open>None\<close> of a function of this development means that the source function does
  not return normally there (it throws, it recurses for ever) or that the input lies outside
  the declared TypeScript type.
\<close>

definition startsWith :: "string \<Rightarrow> string \<Rightarrow> bool" where
  "startsWith s p = (take (length p) s = p)"

text \<open>\<^verbatim>\<open>s.indexOf(t)\<close>: the first position of \<open>t\<close> in \<open>s\<close>, or \<open>-1\<close>.\<close>

fun indexOf :: "string \<Rightarrow> string \<Rightarrow> int" where
  "indexOf [] t = (if t = [] then 0 else - 1)"
| "indexOf (c # r) t =
     (if startsWith (c # r) t then 0
      else (let i = indexOf r t in if i < 0 then - 1 else i + 1))"

definition includesStr :: "string \<Rightarrow> string \<Rightarrow> bool" where
  "includesStr s t = (0 \<le> indexOf s t)"

definition isWhitespace :: "char \<Rightarrow> bool" where
  "isWhitespace c = (c \<in> set [CHR 0x09, CHR 0x0A, CHR 0x0B, CHR 0x0C, CHR 0x0D, CHR '' ''])"

definition trim :: "string \<Rightarrow> string" where
  "trim s = rev (dropWhile isWhitespace (rev (dropWhile isWhitespace s)))"

text \<open>\<^verbatim>\<open>a || b\<close> on a string that may be undefined: the empty string is falsy.\<close>

definition orElse :: "string option \<Rightarrow> string \<Rightarrow> string" where
  "orElse a b = (case a of None \<Rightarrow> b | Some s \<Rightarrow> if s = [] then b else s)"

text \<open>\<^verbatim>\<open>a || undefined\<close>.\<close>

definition orUndefined :: "string option \<Rightarrow> string option" where
  "orUndefined a = (case a of None \<Rightarrow> None | Some s \<Rightarrow> if s = [] then None else Some s)"

definition digits :: string where
  "digits = ''0123456789''"

text \<open>Decimal rendering of a number in a template string.\<close>

fun show_nat :: "nat \<Rightarrow> string" where
  "show_nat n = (if n < 10 then [digits ! n] else show_nat (n div 10) @ [digits ! (n mod 10)])"

declare show_nat.simps [simp del]


section \<open>types.ts\<close>

datatype SemanticChange = SC_none | SC_equivalent | SC_narrowed | SC_widened | SC_incompatible

datatype VersionSpecifierType =
    T_exact | T_caret | T_tilde | T_range | T_x_range | T_hyphen | T_or
  | T_git | T_file | T_alias | T_workspace | T_tag | T_url

record GitInfo =
  url :: string
  committish :: "string option"
  semverRange :: "string option"

datatype ParsedVersionSpecifier =
  Parsed (ptype: VersionSpecifierType) (raw: string) (normalized: string)
         (gitInfo: "GitInfo option") (aliasTarget: "ParsedVersionSpecifier option")
         (workspaceRange: "string option")

datatype Relation =
    R_identical | R_normalized_equal | R_semantically_equal
  | R_same_major_caret | R_same_minor_tilde
  | R_narrowed | R_widened | R_partially_overlapping | R_disjoint
  | R_incompatible_types | R_unknown_type

record SpecifierComparison =
  equivalent :: bool
  relation :: Relation
  detail :: "string option"

text \<open>
  The option records of the sources repeat their fields; here each extends the one before,
  so that a field keeps one name: \<open>SemanticChangeOptions\<close> (version-specifier.ts),
  \<open>DependencyCompareOptions\<close>, \<open>CompareOptions\<close> and \<open>NeedsPublishOptions\<close>.
  An optional field is an option, \<open>None\<close> when it is absent.
\<close>

record SemanticChangeOptions =
  treatNarrowingAsEquivalent :: "bool option"

record DependencyCompareOptions = SemanticChangeOptions +
  includeOptionalDeps :: "bool option"

record CompareOptions = DependencyCompareOptions +
  additionalSignificantFields :: "string list option"
  ignoreFields :: "string list option"


section \<open>The external libraries npm-package-arg and semver\<close>

text \<open>
  Both libraries are outside the repository, so they are parameters of the comparator:
  a value of \<open>'r libs\<close> gives the answers of the calls the sources make, \<open>'r\<close> being the
  type of \<^verbatim>\<open>semver.Range\<close> objects. \<open>None\<close> stands for a call that throws.
\<close>

datatype npa_type =
    NpaVersion | NpaRange | NpaTag | NpaGit | NpaRemote | NpaFile | NpaDirectory | NpaAlias
  | NpaOther

record npa_result =
  npaType :: npa_type
  fetchSpec :: "string option"
  saveSpec :: "string option"
  gitCommittish :: "string option"
  gitRange :: "string option"
  subSpecRaw :: "string option"

text \<open>
  \<^item> \<open>npa_resolve spec where\<close> is \<^verbatim>\<open>npa.resolve('pkg', spec, where)\<close>; \<open>subSpecRaw\<close> is
    \<^verbatim>\<open>parsed.subSpec.rawSpec\<close> when \<^verbatim>\<open>parsed.subSpec\<close> is there;
  \<^item> \<open>semver_Range s\<close> is \<^verbatim>\<open>new semver.Range(s, { loose: true })\<close>, \<open>range_range\<close> its
    \<^verbatim>\<open>.range\<close>;
  \<^item> \<open>semver_valid s\<close> says that \<^verbatim>\<open>semver.valid(s)\<close> is truthy;
  \<^item> \<open>semver_minVersion r\<close> is the major and minor of \<^verbatim>\<open>semver.minVersion(r)\<close>, \<open>None\<close>
    when that is null or throws (the one caller treats both alike);
  \<^item> \<open>semver_subset a b\<close> is \<^verbatim>\<open>semver.subset(a, b, { includePrerelease: true })\<close>;
  \<^item> \<open>range_intersects a b\<close> is \<^verbatim>\<open>a.intersects(b)\<close>, which does not throw on two ranges.
\<close>

record 'r libs =
  npa_resolve :: "string \<Rightarrow> string option \<Rightarrow> npa_result option"
  semver_Range :: "string \<Rightarrow> 'r option"
  range_range :: "'r \<Rightarrow> string"
  semver_valid :: "string \<Rightarrow> bool"
  semver_minVersion :: "'r \<Rightarrow> (nat \<times> nat) option"
  semver_subset :: "'r \<Rightarrow> 'r \<Rightarrow> bool option"
  range_intersects :: "'r \<Rightarrow> 'r \<Rightarrow> bool"


section \<open>comparators/version-specifier.ts\<close>

text \<open>The regular expression \<^verbatim>\<open>/[xX*]/\<close>.\<close>

definition hasWildcard :: "string \<Rightarrow> bool" where
  "hasWildcard s = (\<exists>c \<in> set s. c = CHR ''x'' \<or> c = CHR ''X'' \<or> c = CHR ''*'')"

definition detectRangeSubtype :: "'r libs \<Rightarrow> string \<Rightarrow> VersionSpecifierType" where
  "detectRangeSubtype L spec =
     (let trimmed = trim spec in
      if startsWith trimmed ''^'' then T_caret
      else if startsWith trimmed ''~'' then T_tilde
      else if includesStr trimmed '' - '' then T_hyphen
      else if includesStr trimmed ''||'' then T_or
      else if hasWildcard trimmed \<or> trimmed = [] then T_x_range
      else if semver_valid L trimmed then T_exact
      else T_range)"

definition extractMajorMinor :: "'r libs \<Rightarrow> string \<Rightarrow> (nat \<times> nat) option" where
  "extractMajorMinor L spec =
     (case semver_Range L spec of
        None \<Rightarrow> None
      | Some rng \<Rightarrow> semver_minVersion L rng)"

text \<open>
  The two places where the parser, after the resolver failed or returned a type it does
  not know, tries the specifier as a semver range and falls back to a tag.
\<close>

definition parseAsRangeOrTag :: "'r libs \<Rightarrow> string \<Rightarrow> ParsedVersionSpecifier" where
  "parseAsRangeOrTag L spec =
     (case semver_Range L spec of
        Some rng \<Rightarrow>
          Parsed (detectRangeSubtype L spec) spec (orElse (Some (range_range L rng)) spec)
            None None None
      | None \<Rightarrow> Parsed T_tag spec spec None None None)"

text \<open>
  The parser calls itself in one place, on the raw sub-specifier of an alias. Its body is
  \<open>parseStep\<close>, which returns either the parsed specifier or, as \<open>AliasOf sub\<close>, the
  request to parse \<open>sub\<close> and wrap the result as the alias target.
\<close>

datatype parse_step = Done ParsedVersionSpecifier | AliasOf string

definition parseStep :: "'r libs \<Rightarrow> string \<Rightarrow> string option \<Rightarrow> parse_step" where
  "parseStep L spec wh =
     (if startsWith spec ''workspace:'' then
        Done (Parsed T_workspace spec spec None None (Some (orElse (Some (drop 10 spec)) ''*'')))
      else if spec = [] then
        Done (Parsed T_x_range spec ''*'' None None None)
      else
        (case npa_resolve L spec wh of
           None \<Rightarrow> Done (parseAsRangeOrTag L spec)
         | Some parsed \<Rightarrow>
            (case npaType parsed of
               NpaVersion \<Rightarrow>
                 Done (Parsed T_exact spec (orElse (fetchSpec parsed) spec) None None None)
             | NpaRange \<Rightarrow>
                 Done (Parsed (detectRangeSubtype L spec) spec
                   (case semver_Range L (orElse (fetchSpec parsed) spec) of
                      Some rng \<Rightarrow> orElse (Some (range_range L rng)) spec
                    | None \<Rightarrow> spec)
                   None None None)
             | NpaTag \<Rightarrow>
                 Done (Parsed T_tag spec (orElse (fetchSpec parsed) spec) None None None)
             | NpaGit \<Rightarrow>
                 Done (Parsed T_git spec (orElse (saveSpec parsed) spec)
                   (Some \<lparr>url = orElse (fetchSpec parsed) [],
                          committish = orUndefined (gitCommittish parsed),
                          semverRange = orUndefined (gitRange parsed)\<rparr>)
                   None None)
             | NpaRemote \<Rightarrow>
                 Done (Parsed T_url spec (orElse (fetchSpec parsed) spec) None None None)
             | NpaFile \<Rightarrow>
                 Done (Parsed T_file spec (orElse (saveSpec parsed) spec) None None None)
             | NpaDirectory \<Rightarrow>
                 Done (Parsed T_file spec (orElse (saveSpec parsed) spec) None None None)
             | NpaAlias \<Rightarrow>
                 (case subSpecRaw parsed of
                    Some sub \<Rightarrow> AliasOf sub
                  | None \<Rightarrow> Done (Parsed T_alias spec spec None None None))
             | NpaOther \<Rightarrow> Done (parseAsRangeOrTag L spec))))"

partial_function (option)
  parseVersionSpecifier :: "'r libs \<Rightarrow> string \<Rightarrow> string option \<Rightarrow> ParsedVersionSpecifier option"
where
  "parseVersionSpecifier L spec wh =
     (case parseStep L spec wh of
        Done p \<Rightarrow> Some p
      | AliasOf sub \<Rightarrow>
          Option.bind (parseVersionSpecifier L sub wh)
            (\<lambda>target. Some (Parsed T_alias spec spec None (Some target) None)))"

declare parseVersionSpecifier.simps [code]

definition getSpecCategory :: "VersionSpecifierType \<Rightarrow> string" where
  "getSpecCategory t =
     (case t of
        T_exact \<Rightarrow> ''semver'' | T_caret \<Rightarrow> ''semver'' | T_tilde \<Rightarrow> ''semver''
      | T_range \<Rightarrow> ''semver'' | T_x_range \<Rightarrow> ''semver'' | T_hyphen \<Rightarrow> ''semver''
      | T_or \<Rightarrow> ''semver''
      | T_git \<Rightarrow> ''git'' | T_file \<Rightarrow> ''file'' | T_tag \<Rightarrow> ''tag'' | T_url \<Rightarrow> ''url''
      | T_alias \<Rightarrow> ''alias'' | T_workspace \<Rightarrow> ''workspace'')"

definition result :: "bool \<Rightarrow> Relation \<Rightarrow> SpecifierComparison" where
  "result e r = \<lparr>equivalent = e, relation = r, detail = None\<rparr>"

definition resultWith :: "bool \<Rightarrow> Relation \<Rightarrow> string \<Rightarrow> SpecifierComparison" where
  "resultWith e r d = \<lparr>equivalent = e, relation = r, detail = Some d\<rparr>"

definition subsetOrFalse :: "'r libs \<Rightarrow> 'r \<Rightarrow> 'r \<Rightarrow> bool" where
  "subsetOrFalse L a b = (case semver_subset L a b of Some v \<Rightarrow> v | None \<Rightarrow> False)"

definition compareSemverSpecs :: "'r libs \<Rightarrow> string \<Rightarrow> string \<Rightarrow> SpecifierComparison" where
  "compareSemverSpecs L specA specB =
     (case semver_Range L specA of
        None \<Rightarrow> result False R_incompatible_types
      | Some rangeA \<Rightarrow>
     (case semver_Range L specB of
        None \<Rightarrow> result False R_incompatible_types
      | Some rangeB \<Rightarrow>
          if range_range L rangeA = range_range L rangeB then result True R_normalized_equal
          else if startsWith (trim specA) ''^'' \<and> startsWith (trim specB) ''^'' \<and>
              (case (extractMajorMinor L specA, extractMajorMinor L specB) of
                 (Some boundsA, Some boundsB) \<Rightarrow> fst boundsA = fst boundsB
               | _ \<Rightarrow> False)
            then result True R_same_major_caret
          else if startsWith (trim specA) ''~'' \<and> startsWith (trim specB) ''~'' \<and>
              (case (extractMajorMinor L specA, extractMajorMinor L specB) of
                 (Some boundsA, Some boundsB) \<Rightarrow>
                    fst boundsA = fst boundsB \<and> snd boundsA = snd boundsB
               | _ \<Rightarrow> False)
            then result True R_same_minor_tilde
          else
            (let aSubsetB = subsetOrFalse L rangeA rangeB;
                 bSubsetA = subsetOrFalse L rangeB rangeA
             in if aSubsetB \<and> bSubsetA then result True R_semantically_equal
                else if bSubsetA then resultWith False R_narrowed ''new range is subset of old''
                else if aSubsetB then resultWith False R_widened ''old range is subset of new''
                else result False
                  (if range_intersects L rangeA rangeB then R_partially_overlapping
                   else R_disjoint))))"

definition compareGitSpecs ::
  "'r libs \<Rightarrow> ParsedVersionSpecifier \<Rightarrow> ParsedVersionSpecifier \<Rightarrow> SpecifierComparison"
where
  "compareGitSpecs L parsedA parsedB =
     (case (gitInfo parsedA, gitInfo parsedB) of
        (Some gitA, Some gitB) \<Rightarrow>
          if url gitA \<noteq> url gitB then resultWith False R_disjoint ''Different git URLs''
          else
            (case (orUndefined (committish gitA), orUndefined (committish gitB)) of
               (Some ca, Some cb) \<Rightarrow>
                 if ca = cb then result True R_identical
                 else resultWith False R_disjoint ''Different committish''
             | _ \<Rightarrow>
                (case (orUndefined (semverRange gitA), orUndefined (semverRange gitB)) of
                   (Some ra, Some rb) \<Rightarrow> compareSemverSpecs L ra rb
                 | _ \<Rightarrow> result False R_incompatible_types))
      | _ \<Rightarrow> result False R_incompatible_types)"

definition compareFileSpecs ::
  "ParsedVersionSpecifier \<Rightarrow> ParsedVersionSpecifier \<Rightarrow> SpecifierComparison"
where
  "compareFileSpecs parsedA parsedB =
     (if normalized parsedA = normalized parsedB then result True R_identical
      else resultWith False R_disjoint ''Different file paths'')"

definition compareWorkspaceSpecs ::
  "ParsedVersionSpecifier \<Rightarrow> ParsedVersionSpecifier \<Rightarrow> SpecifierComparison"
where
  "compareWorkspaceSpecs parsedA parsedB =
     (if ptype parsedA \<noteq> T_workspace \<or> ptype parsedB \<noteq> T_workspace
      then result False R_incompatible_types
      else if orElse (workspaceRange parsedA) ''*'' = orElse (workspaceRange parsedB) ''*''
      then result True R_identical
      else resultWith False R_disjoint ''Different workspace specifiers'')"

definition compareTagSpecs ::
  "ParsedVersionSpecifier \<Rightarrow> ParsedVersionSpecifier \<Rightarrow> SpecifierComparison"
where
  "compareTagSpecs parsedA parsedB =
     (if normalized parsedA = normalized parsedB then result True R_identical
      else resultWith False R_disjoint ''Different tags'')"

definition compareUrlSpecs ::
  "ParsedVersionSpecifier \<Rightarrow> ParsedVersionSpecifier \<Rightarrow> SpecifierComparison"
where
  "compareUrlSpecs parsedA parsedB =
     (if normalized parsedA = normalized parsedB then result True R_identical
      else resultWith False R_disjoint ''Different URLs'')"

text \<open>
  \<^verbatim>\<open>compareAliasSpecs\<close> either answers or calls \<^verbatim>\<open>compareVersionSpecifiers\<close> again on
  two raw strings; the second case is returned as \<open>Recurse\<close> and run by the caller.
\<close>

datatype alias_step = Recurse string string | Answer SpecifierComparison

definition compareAliasSpecs ::
  "ParsedVersionSpecifier \<Rightarrow> ParsedVersionSpecifier \<Rightarrow> alias_step"
where
  "compareAliasSpecs parsedA parsedB =
     (case (if ptype parsedA = T_alias \<and> ptype parsedB = T_alias
            then (aliasTarget parsedA, aliasTarget parsedB) else (None, None)) of
        (Some ta, Some tb) \<Rightarrow> Recurse (raw ta) (raw tb)
      | _ \<Rightarrow>
        (case (if ptype parsedA = T_alias then aliasTarget parsedA else None) of
           Some ta \<Rightarrow> Recurse (raw ta) (raw parsedB)
         | None \<Rightarrow>
           (case (if ptype parsedB = T_alias then aliasTarget parsedB else None) of
              Some tb \<Rightarrow> Recurse (raw parsedA) (raw tb)
            | None \<Rightarrow> Answer (result False R_incompatible_types))))"

definition compareByType ::
  "'r libs \<Rightarrow> string \<Rightarrow> string \<Rightarrow> ParsedVersionSpecifier \<Rightarrow> ParsedVersionSpecifier
    \<Rightarrow> SpecifierComparison"
where
  "compareByType L specA specB parsedA parsedB =
     (case ptype parsedA of
        T_exact \<Rightarrow> compareSemverSpecs L specA specB
      | T_caret \<Rightarrow> compareSemverSpecs L specA specB
      | T_tilde \<Rightarrow> compareSemverSpecs L specA specB
      | T_range \<Rightarrow> compareSemverSpecs L specA specB
      | T_x_range \<Rightarrow> compareSemverSpecs L specA specB
      | T_hyphen \<Rightarrow> compareSemverSpecs L specA specB
      | T_or \<Rightarrow> compareSemverSpecs L specA specB
      | T_git \<Rightarrow> compareGitSpecs L parsedA parsedB
      | T_file \<Rightarrow> compareFileSpecs parsedA parsedB
      | T_tag \<Rightarrow> compareTagSpecs parsedA parsedB
      | T_url \<Rightarrow> compareUrlSpecs parsedA parsedB
      | _ \<Rightarrow> result False R_unknown_type)"

partial_function (option)
  compareVersionSpecifiers ::
    "'r libs \<Rightarrow> string \<Rightarrow> string \<Rightarrow> string option \<Rightarrow> SpecifierComparison option"
where
  "compareVersionSpecifiers L specA specB wh =
     (if specA = specB then Some (result True R_identical)
      else
        (case parseVersionSpecifier L specA wh of
           None \<Rightarrow> None
         | Some parsedA \<Rightarrow>
        (case parseVersionSpecifier L specB wh of
           None \<Rightarrow> None
         | Some parsedB \<Rightarrow>
             if ptype parsedA = T_workspace \<or> ptype parsedB = T_workspace
             then Some (compareWorkspaceSpecs parsedA parsedB)
             else if ptype parsedA = T_alias \<or> ptype parsedB = T_alias
             then (case compareAliasSpecs parsedA parsedB of
                     Recurse a b \<Rightarrow> compareVersionSpecifiers L a b wh
                   | Answer r \<Rightarrow> Some r)
             else if getSpecCategory (ptype parsedA) \<noteq> getSpecCategory (ptype parsedB)
             then Some (result False R_incompatible_types)
             else Some (compareByType L specA specB parsedA parsedB))))"

declare compareVersionSpecifiers.simps [code]

definition comparisonToSemanticChange ::
  "SpecifierComparison \<Rightarrow> SemanticChangeOptions option \<Rightarrow> SemanticChange"
where
  "comparisonToSemanticChange comparison options =
     (let treatNarrowing =
            ((case options of None \<Rightarrow> None | Some opts \<Rightarrow> treatNarrowingAsEquivalent opts)
               \<noteq> Some False)
      in if equivalent comparison
         then (if relation comparison = R_identical then SC_none else SC_equivalent)
         else (case relation comparison of
                 R_narrowed \<Rightarrow> if treatNarrowing then SC_equivalent else SC_narrowed
               | R_widened \<Rightarrow> SC_widened
               | _ \<Rightarrow> SC_incompatible))"


section \<open>JSON values and package.json\<close>

datatype json =
  JNull | JBool bool | JNum int | JStr string | JArr "json list" | JObj "(string \<times> json) list"

text \<open>
  An object is the list of its own properties, in the order of \<^verbatim>\<open>Object.keys\<close>, with
  distinct keys that are not names of members of \<^verbatim>\<open>Object.prototype\<close>. A property
  read gives \<open>None\<close> for \<^verbatim>\<open>undefined\<close>.

  The interface \<^verbatim>\<open>PackageJson\<close> requires the strings \<^verbatim>\<open>name\<close> and \<^verbatim>\<open>version\<close>;
  every other property is optional and kept in \<open>pkg_fields\<close>.
\<close>

record PackageJson =
  pkg_name :: string
  pkg_version :: string
  pkg_fields :: "(string \<times> json) list"

definition getField :: "PackageJson \<Rightarrow> string \<Rightarrow> json option" where
  "getField pkg k =
     (if k = ''name'' then Some (JStr (pkg_name pkg))
      else if k = ''version'' then Some (JStr (pkg_version pkg))
      else map_of (pkg_fields pkg) k)"

definition truthy :: "json option \<Rightarrow> bool" where
  "truthy v =
     (case v of
        None \<Rightarrow> False
      | Some JNull \<Rightarrow> False
      | Some (JBool b) \<Rightarrow> b
      | Some (JNum n) \<Rightarrow> n \<noteq> 0
      | Some (JStr s) \<Rightarrow> s \<noteq> []
      | Some (JArr xs) \<Rightarrow> True
      | Some (JObj ps) \<Rightarrow> True)"

text \<open>
  A dependency map (\<^verbatim>\<open>Record<string, string>\<close>, \<^verbatim>\<open>|| {}\<close> when the field is absent) and
  an array of names; \<open>None\<close> when the value is outside these types.
\<close>

fun stringEntries :: "(string \<times> json) list \<Rightarrow> (string \<times> string) list option" where
  "stringEntries [] = Some []"
| "stringEntries ((k, JStr s) # ps) = map_option ((#) (k, s)) (stringEntries ps)"
| "stringEntries (_ # ps) = None"

fun stringItems :: "json list \<Rightarrow> string list option" where
  "stringItems [] = Some []"
| "stringItems (JStr s # xs) = map_option ((#) s) (stringItems xs)"
| "stringItems (_ # xs) = None"

definition asDeps :: "json option \<Rightarrow> (string \<times> string) list option" where
  "asDeps v =
     (case v of
        None \<Rightarrow> Some []
      | Some (JObj ps) \<Rightarrow> stringEntries ps
      | Some _ \<Rightarrow> None)"


section \<open>comparators/dependency.ts\<close>

datatype DepType = Dependencies | PeerDependencies | OptionalDependencies | BundledDependencies

datatype Action = Added | Removed | Changed

record DependencyChange =
  dc_name :: string
  dc_type :: DepType
  dc_action :: Action
  oldSpec :: "string option"
  newSpec :: "string option"
  semanticChange :: SemanticChange

record DependencyComparison =
  hasChanges :: bool
  dep_changes :: "DependencyChange list"
  significantChanges :: "DependencyChange list"

definition SIGNIFICANT_DEP_TYPES :: "DepType list" where
  "SIGNIFICANT_DEP_TYPES =
     [Dependencies, PeerDependencies, OptionalDependencies, BundledDependencies]"

definition depTypeName :: "DepType \<Rightarrow> string" where
  "depTypeName t =
     (case t of
        Dependencies \<Rightarrow> ''dependencies''
      | PeerDependencies \<Rightarrow> ''peerDependencies''
      | OptionalDependencies \<Rightarrow> ''optionalDependencies''
      | BundledDependencies \<Rightarrow> ''bundledDependencies'')"

text \<open>
  The first loop of \<^verbatim>\<open>compareDependencyObject\<close>, over the entries of the local map.
  \<^verbatim>\<open>!registrySpec\<close> holds when the name is absent from the registry map and also when its
  specifier there is the empty string.
\<close>

fun addedOrChanged ::
  "'r libs \<Rightarrow> (string \<times> string) list \<Rightarrow> (string \<times> string) list \<Rightarrow> DepType
    \<Rightarrow> SemanticChangeOptions option \<Rightarrow> DependencyChange list option"
where
  "addedOrChanged L [] registryDeps depType semanticOpts = Some []"
| "addedOrChanged L ((nm, localSpec) # rest) registryDeps depType semanticOpts =
     (case orUndefined (map_of registryDeps nm) of
        None \<Rightarrow>
          map_option
            ((#) \<lparr>dc_name = nm, dc_type = depType, dc_action = Added, oldSpec = None,
                   newSpec = Some localSpec, semanticChange = SC_incompatible\<rparr>)
            (addedOrChanged L rest registryDeps depType semanticOpts)
      | Some registrySpec \<Rightarrow>
          if localSpec \<noteq> registrySpec then
            (case compareVersionSpecifiers L registrySpec localSpec None of
               None \<Rightarrow> None
             | Some comparison \<Rightarrow>
                 map_option
                   ((#) \<lparr>dc_name = nm, dc_type = depType, dc_action = Changed,
                          oldSpec = Some registrySpec, newSpec = Some localSpec,
                          semanticChange = comparisonToSemanticChange comparison semanticOpts\<rparr>)
                   (addedOrChanged L rest registryDeps depType semanticOpts))
          else addedOrChanged L rest registryDeps depType semanticOpts)"

text \<open>The second loop, over the entries of the registry map.\<close>

definition removedDeps ::
  "(string \<times> string) list \<Rightarrow> (string \<times> string) list \<Rightarrow> DepType \<Rightarrow> DependencyChange list"
where
  "removedDeps localDeps registryDeps depType =
     map (\<lambda>(nm, registrySpec).
            \<lparr>dc_name = nm, dc_type = depType, dc_action = Removed, oldSpec = Some registrySpec,
             newSpec = None, semanticChange = SC_incompatible\<rparr>)
       (filter (\<lambda>(nm, registrySpec). nm \<notin> fst ` set localDeps) registryDeps)"

definition compareDependencyObject ::
  "'r libs \<Rightarrow> (string \<times> string) list \<Rightarrow> (string \<times> string) list \<Rightarrow> DepType
    \<Rightarrow> SemanticChangeOptions option \<Rightarrow> DependencyChange list option"
where
  "compareDependencyObject L localDeps registryDeps depType semanticOpts =
     map_option (\<lambda>cs. cs @ removedDeps localDeps registryDeps depType)
       (addedOrChanged L localDeps registryDeps depType semanticOpts)"

definition bundledArray :: "PackageJson \<Rightarrow> string list option" where
  "bundledArray pkg =
     (case getField pkg ''bundledDependencies'' of
        Some (JArr xs) \<Rightarrow> stringItems xs
      | Some _ \<Rightarrow> None
      | None \<Rightarrow>
         (case getField pkg ''bundleDependencies'' of
            Some (JArr xs) \<Rightarrow> stringItems xs
          | Some _ \<Rightarrow> None
          | None \<Rightarrow> Some []))"

definition bundledChange :: "Action \<Rightarrow> string \<Rightarrow> DependencyChange" where
  "bundledChange a nm =
     \<lparr>dc_name = nm, dc_type = BundledDependencies, dc_action = a, oldSpec = None,
      newSpec = None, semanticChange = SC_incompatible\<rparr>"

definition compareBundledDeps :: "PackageJson \<Rightarrow> PackageJson \<Rightarrow> DependencyChange list option" where
  "compareBundledDeps local registry =
     (case (bundledArray local, bundledArray registry) of
        (Some localBundledArray, Some registryBundledArray) \<Rightarrow>
          Some (map (bundledChange Added)
                  (filter (\<lambda>nm. nm \<notin> set registryBundledArray) localBundledArray)
                @ map (bundledChange Removed)
                  (filter (\<lambda>nm. nm \<notin> set localBundledArray) registryBundledArray))
      | _ \<Rightarrow> None)"

definition isSignificantChange :: "DependencyChange \<Rightarrow> bool" where
  "isSignificantChange c = (semanticChange c \<noteq> SC_equivalent \<and> semanticChange c \<noteq> SC_none)"

definition changesOfType ::
  "'r libs \<Rightarrow> PackageJson \<Rightarrow> PackageJson \<Rightarrow> SemanticChangeOptions option \<Rightarrow> DepType
    \<Rightarrow> DependencyChange list option"
where
  "changesOfType L local registry semanticOpts depType =
     (if depType = BundledDependencies then compareBundledDeps local registry
      else
        (case (asDeps (getField local (depTypeName depType)),
               asDeps (getField registry (depTypeName depType))) of
           (Some localDeps, Some registryDeps) \<Rightarrow>
             compareDependencyObject L localDeps registryDeps depType semanticOpts
         | _ \<Rightarrow> None))"

text \<open>The loop over the dependency types: the changes of each, appended in order.\<close>

fun appendAll :: "('a \<Rightarrow> 'b list option) \<Rightarrow> 'a list \<Rightarrow> 'b list option" where
  "appendAll f [] = Some []"
| "appendAll f (x # xs) =
     (case f x of
        None \<Rightarrow> None
      | Some ys \<Rightarrow> map_option ((@) ys) (appendAll f xs))"

definition compareDependencies ::
  "'r libs \<Rightarrow> PackageJson \<Rightarrow> PackageJson \<Rightarrow> DependencyCompareOptions option
    \<Rightarrow> DependencyComparison option"
where
  "compareDependencies L local registry options =
     (let includeOptional =
            ((case options of None \<Rightarrow> None | Some opts \<Rightarrow> includeOptionalDeps opts) \<noteq> Some False);
          depTypes = filter (\<lambda>t. \<not> (t = OptionalDependencies \<and> \<not> includeOptional))
                       SIGNIFICANT_DEP_TYPES;
          semanticOpts =
            \<lparr>treatNarrowingAsEquivalent =
               (case options of None \<Rightarrow> None | Some opts \<Rightarrow> treatNarrowingAsEquivalent opts)\<rparr>
      in map_option
           (\<lambda>cs. \<lparr>hasChanges = (filter isSignificantChange cs \<noteq> []), dep_changes = cs,
                  significantChanges = filter isSignificantChange cs\<rparr>)
           (appendAll (changesOfType L local registry (Some semanticOpts)) depTypes))"

fun joinWith :: "string \<Rightarrow> string list \<Rightarrow> string" where
  "joinWith sep [] = []"
| "joinWith sep [x] = x"
| "joinWith sep (x # y # ys) = x @ sep @ joinWith sep (y # ys)"

definition countPart :: "nat \<Rightarrow> string \<Rightarrow> string list" where
  "countPart n label = (if 0 < n then [show_nat n @ label] else [])"

definition getDependencyChangeSummary :: "DependencyChange list \<Rightarrow> string" where
  "getDependencyChangeSummary cs =
     (if cs = [] then ''No dependency changes''
      else
        (let added = filter (\<lambda>c. dc_action c = Added) cs;
             removed = filter (\<lambda>c. dc_action c = Removed) cs;
             changed = filter (\<lambda>c. dc_action c = Changed) cs;
             significant = filter isSignificantChange cs;
             parts = countPart (length added) '' added''
                   @ countPart (length removed) '' removed''
                   @ countPart (length (filter isSignificantChange changed))
                       '' significantly changed''
                   @ countPart (length (filter (\<lambda>c. \<not> isSignificantChange c) changed))
                       '' equivalent changes''
         in ''Dependencies: '' @ joinWith '', '' parts
              @ '' ('' @ show_nat (length significant) @ '' significant)''))"


section \<open>comparators/package-json.ts\<close>

datatype Significance = Critical | Significant | Informational

record FieldChange =
  fc_field :: string
  oldValue :: "json option"
  newValue :: "json option"
  significance :: Significance

record PackageJsonComparison =
  hasSignificantChanges :: bool
  fieldChanges :: "FieldChange list"
  dependencyChanges :: "DependencyChange list"
  summary :: string

definition SIGNIFICANT_FIELDS :: "string list" where
  "SIGNIFICANT_FIELDS =
     [''name'', ''version'', ''main'', ''module'', ''browser'', ''exports'', ''types'',
      ''typings'', ''type'', ''bin'', ''files'', ''engines'', ''os'', ''cpu'',
      ''peerDependenciesMeta'', ''packageManager'']"

definition CRITICAL_FIELDS :: "string list" where
  "CRITICAL_FIELDS =
     [''name'', ''version'', ''main'', ''module'', ''exports'', ''bin'', ''types'', ''typings'']"

definition NEVER_SIGNIFICANT_FIELDS :: "string list" where
  "NEVER_SIGNIFICANT_FIELDS =
     [''devDependencies'', ''scripts'', ''repository'', ''homepage'', ''bugs'', ''author'',
      ''contributors'', ''license'', ''keywords'', ''description'', ''readme'',
      ''readmeFilename'', ''private'', ''_id'', ''_from'', ''_resolved'', ''_integrity'',
      ''_nodeVersion'', ''_npmVersion'', ''_npmUser'', ''dist'', ''gitHead'', ''_shasum'',
      ''_npmOperationalInternal'']"

text \<open>
  \<^verbatim>\<open>deepEqual\<close>. Two values that are the same reference are structurally equal, so the
  test \<^verbatim>\<open>a === b\<close> decides primitives only. An array read at a key gives its element at
  that index, or its length; an array and an object are both of type \<^verbatim>\<open>'object'\<close> and
  are compared key by key.
\<close>

definition arrayProp :: "json list \<Rightarrow> string \<Rightarrow> json option" where
  "arrayProp xs k =
     (if k = ''length'' then Some (JNum (int (length xs)))
      else map_of (zip (map show_nat [0..<length xs]) xs) k)"

fun deepEqualDefined :: "json \<Rightarrow> json \<Rightarrow> bool"
  and deepEqualItems :: "json list \<Rightarrow> json list \<Rightarrow> bool"
  and deepEqualProps :: "(string \<times> json) list \<Rightarrow> (string \<Rightarrow> json option) \<Rightarrow> bool"
  and deepEqualIndexed :: "nat \<Rightarrow> json list \<Rightarrow> (string \<Rightarrow> json option) \<Rightarrow> bool"
where
  "deepEqualDefined (JArr xs) (JArr ys) = (length xs = length ys \<and> deepEqualItems xs ys)"
| "deepEqualDefined (JObj ps) (JObj qs) = (length ps = length qs \<and> deepEqualProps ps (map_of qs))"
| "deepEqualDefined (JObj ps) (JArr ys) =
     (length ps = length ys \<and> deepEqualProps ps (arrayProp ys))"
| "deepEqualDefined (JArr xs) (JObj qs) =
     (length xs = length qs \<and> deepEqualIndexed 0 xs (map_of qs))"
| "deepEqualDefined a b = (a = b)"
| "deepEqualItems (x # xs) (y # ys) = (deepEqualDefined x y \<and> deepEqualItems xs ys)"
| "deepEqualItems xs ys = True"
| "deepEqualProps [] get = True"
| "deepEqualProps ((k, v) # ps) get =
     ((case get k of None \<Rightarrow> False | Some w \<Rightarrow> deepEqualDefined v w) \<and> deepEqualProps ps get)"
| "deepEqualIndexed i [] get = True"
| "deepEqualIndexed i (x # xs) get =
     ((case get (show_nat i) of None \<Rightarrow> False | Some w \<Rightarrow> deepEqualDefined x w)
      \<and> deepEqualIndexed (Suc i) xs get)"

definition deepEqual :: "json option \<Rightarrow> json option \<Rightarrow> bool" where
  "deepEqual a b =
     (case (a, b) of
        (None, None) \<Rightarrow> True
      | (Some x, Some y) \<Rightarrow> deepEqualDefined x y
      | _ \<Rightarrow> False)"

definition isNullish :: "json option \<Rightarrow> bool" where
  "isNullish v = (v = None \<or> v = Some JNull)"

definition normalizeExports :: "json \<Rightarrow> json" where
  "normalizeExports exports =
     (case exports of
        JStr s \<Rightarrow> JObj [(''.'', JStr s)]
      | JArr xs \<Rightarrow> JObj [(''.'', JArr xs)]
      | _ \<Rightarrow> exports)"

text \<open>\<^verbatim>\<open>compareExports\<close> returns the flag \<^verbatim>\<open>hasSignificantDifference\<close>.\<close>

definition compareExports :: "json option \<Rightarrow> json option \<Rightarrow> bool" where
  "compareExports localExports registryExports =
     (if isNullish localExports \<and> isNullish registryExports then False
      else if isNullish localExports \<or> isNullish registryExports then True
      else \<not> deepEqual (map_option normalizeExports localExports)
                 (map_option normalizeExports registryExports))"

text \<open>\<^verbatim>\<open>packageName.split('/')[1]\<close>, which is undefined when there is no slash.\<close>

definition splitSecond :: "string \<Rightarrow> string option" where
  "splitSecond s =
     (if CHR ''/'' \<in> set s
      then Some (takeWhile (\<lambda>c. c \<noteq> CHR ''/'') (tl (dropWhile (\<lambda>c. c \<noteq> CHR ''/'') s)))
      else None)"

definition normalizeBin :: "json option \<Rightarrow> string \<Rightarrow> json option" where
  "normalizeBin bin packageName =
     (case bin of
        None \<Rightarrow> None
      | Some JNull \<Rightarrow> None
      | Some (JStr s) \<Rightarrow>
          (let binName =
                 (if startsWith packageName ''@''
                  then (case splitSecond packageName of Some n \<Rightarrow> n | None \<Rightarrow> ''undefined'')
                  else packageName)
           in Some (JObj [(binName, JStr s)]))
      | Some (JArr xs) \<Rightarrow> Some (JArr xs)
      | Some (JObj ps) \<Rightarrow> Some (JObj ps)
      | Some _ \<Rightarrow> None)"

definition getFieldSignificance :: "string \<Rightarrow> string list option \<Rightarrow> Significance" where
  "getFieldSignificance fld additional =
     (if fld \<in> set CRITICAL_FIELDS then Critical
      else if fld \<in> set SIGNIFICANT_FIELDS then Significant
      else if (case additional of None \<Rightarrow> False | Some fs \<Rightarrow> fld \<in> set fs) then Significant
      else Informational)"

text \<open>
  \<^verbatim>\<open>fieldsToCheck\<close> is an object used as a set: a key is inserted once, at its first
  insertion, and \<^verbatim>\<open>delete\<close> removes it.
\<close>

definition setKey :: "string list \<Rightarrow> string \<Rightarrow> string list" where
  "setKey ks k = (if k \<in> set ks then ks else ks @ [k])"

text \<open>\<^verbatim>\<open>options?.additionalSignificantFields || []\<close> and \<^verbatim>\<open>options?.ignoreFields || []\<close>.\<close>

definition additionalFields :: "CompareOptions option \<Rightarrow> string list" where
  "additionalFields options =
     (case options of
        None \<Rightarrow> []
      | Some opts \<Rightarrow> (case additionalSignificantFields opts of None \<Rightarrow> [] | Some fs \<Rightarrow> fs))"

definition ignoredFields :: "CompareOptions option \<Rightarrow> string list" where
  "ignoredFields options =
     (case options of
        None \<Rightarrow> []
      | Some opts \<Rightarrow> (case ignoreFields opts of None \<Rightarrow> [] | Some fs \<Rightarrow> fs))"

definition fieldsToCheck :: "CompareOptions option \<Rightarrow> string list" where
  "fieldsToCheck options =
     filter (\<lambda>k. k \<notin> set (ignoredFields options))
       (foldl setKey (foldl setKey [] SIGNIFICANT_FIELDS) (additionalFields options))"

text \<open>One round of the loop over the fields to check: the entry it pushes, if any.\<close>

definition fieldChange ::
  "PackageJson \<Rightarrow> PackageJson \<Rightarrow> CompareOptions option \<Rightarrow> string \<Rightarrow> FieldChange list"
where
  "fieldChange local registry options fld =
     (let localValue = getField local fld;
          registryValue = getField registry fld
      in if deepEqual localValue registryValue then []
         else if fld = ''exports'' then
           (if compareExports localValue registryValue
            then [\<lparr>fc_field = fld, oldValue = registryValue, newValue = localValue,
                    significance = Critical\<rparr>]
            else [])
         else if fld = ''bin'' \<and>
                 deepEqual (normalizeBin localValue (pkg_name local))
                   (normalizeBin registryValue (pkg_name registry))
         then []
         else [\<lparr>fc_field = fld, oldValue = registryValue, newValue = localValue,
                 significance =
                   getFieldSignificance fld
                     (case options of None \<Rightarrow> None | Some opts \<Rightarrow> additionalSignificantFields opts)\<rparr>])"

definition isSignificantFieldChange :: "FieldChange \<Rightarrow> bool" where
  "isSignificantFieldChange c = (significance c = Critical \<or> significance c = Significant)"

definition generateSummary :: "FieldChange list \<Rightarrow> DependencyChange list \<Rightarrow> string" where
  "generateSummary fcs dcs =
     (let criticalFields = filter (\<lambda>c. significance c = Critical) fcs;
          significantFields = filter (\<lambda>c. significance c = Significant) fcs;
          parts =
            (if criticalFields \<noteq> []
             then [''Critical field changes: '' @ joinWith '', '' (map fc_field criticalFields)]
             else [])
            @ (if significantFields \<noteq> []
               then [''Significant field changes: ''
                       @ joinWith '', '' (map fc_field significantFields)]
               else [])
            @ (if dcs \<noteq> [] then [getDependencyChangeSummary dcs] else [])
      in if parts = [] then ''No significant changes'' else joinWith ''; '' parts)"

definition comparePackageJson ::
  "'r libs \<Rightarrow> PackageJson \<Rightarrow> PackageJson \<Rightarrow> CompareOptions option
    \<Rightarrow> PackageJsonComparison option"
where
  "comparePackageJson L local registry options =
     (let fcs = concat (map (fieldChange local registry options) (fieldsToCheck options));
          depOptions =
            \<lparr>treatNarrowingAsEquivalent =
               (case options of None \<Rightarrow> None | Some opts \<Rightarrow> treatNarrowingAsEquivalent opts),
             includeOptionalDeps =
               (case options of None \<Rightarrow> None | Some opts \<Rightarrow> includeOptionalDeps opts)\<rparr>
      in map_option
           (\<lambda>depComparison.
              \<lparr>hasSignificantChanges =
                 (list_ex isSignificantFieldChange fcs \<or> hasChanges depComparison),
               fieldChanges = fcs,
               dependencyChanges = dep_changes depComparison,
               summary = generateSummary fcs (dep_changes depComparison)\<rparr>)
           (compareDependencies L local registry (Some depOptions)))"

definition isSignificantField :: "string \<Rightarrow> CompareOptions option \<Rightarrow> bool" where
  "isSignificantField fld options =
     (if (case options of
            None \<Rightarrow> False
          | Some opts \<Rightarrow> (case ignoreFields opts of None \<Rightarrow> False | Some fs \<Rightarrow> fld \<in> set fs))
      then False
      else if (case options of
                 None \<Rightarrow> False
               | Some opts \<Rightarrow>
                   (case additionalSignificantFields opts of
                      None \<Rightarrow> False
                    | Some fs \<Rightarrow> fld \<in> set fs))
      then True
      else if fld \<in> set NEVER_SIGNIFICANT_FIELDS then False
      else fld \<in> set SIGNIFICANT_FIELDS)"


section \<open>comparators/file-content.ts\<close>

text \<open>
  A \<^verbatim>\<open>Buffer\<close> is the list of its bytes. The hash and the archive codec are outside the
  repository: \<open>sha512_base64\<close> is \<^verbatim>\<open>crypto.createHash('sha512').update(b).digest('base64')\<close>
  and \<open>tar_entries\<close> gives the path and content of each entry of type \<^verbatim>\<open>File\<close> of a
  gzipped archive, in order, \<open>None\<close> when the pipeline fails.
\<close>

type_synonym buffer = string

record archive_lib =
  sha512_base64 :: "buffer \<Rightarrow> string"
  tar_entries :: "buffer \<Rightarrow> (string \<times> buffer) list option"

datatype FileAction = FileAdded | FileRemoved | FileModified

record FileChange =
  file_path :: string
  file_action :: FileAction

record FileComparison =
  identical :: bool
  fileChanges :: "FileChange list"
  packageJsonOnly :: bool

definition hashBuffer :: "archive_lib \<Rightarrow> buffer \<Rightarrow> string" where
  "hashBuffer A b = sha512_base64 A b"

text \<open>\<^verbatim>\<open>files[entry.path] = content\<close>: a later entry of the same path replaces the content.\<close>

definition putFile :: "(string \<times> buffer) list \<Rightarrow> string \<times> buffer \<Rightarrow> (string \<times> buffer) list" where
  "putFile files e =
     (if fst e \<in> fst ` set files
      then map (\<lambda>f. if fst f = fst e then e else f) files
      else files @ [e])"

definition extractTarball :: "archive_lib \<Rightarrow> buffer \<Rightarrow> (string \<times> buffer) list option" where
  "extractTarball A tarball = map_option (foldl putFile []) (tar_entries A tarball)"

definition buffersEqual :: "buffer \<Rightarrow> buffer \<Rightarrow> bool" where
  "buffersEqual a b = (if length a \<noteq> length b then False else a = b)"

text \<open>The test of the loop for the manifest path; \<open>13\<close> is the length of \<^verbatim>\<open>/package.json\<close>.\<close>

definition isPackageJsonPath :: "string \<Rightarrow> bool" where
  "isPackageJsonPath filePath =
     (filePath = ''package/package.json''
      \<or> indexOf filePath ''/package.json'' = int (length filePath) - 13)"

text \<open>
  The loop over all paths, with its two variables \<^verbatim>\<open>changes\<close> and
  \<^verbatim>\<open>onlyPackageJsonDiffers\<close>. A buffer is truthy, so \<^verbatim>\<open>!registryContent\<close> says that the
  path is absent.
\<close>

fun diffPaths ::
  "(string \<times> buffer) list \<Rightarrow> (string \<times> buffer) list \<Rightarrow> string list
    \<Rightarrow> FileChange list \<times> bool \<Rightarrow> FileChange list \<times> bool"
where
  "diffPaths localFiles registryFiles [] st = st"
| "diffPaths localFiles registryFiles (filePath # rest) (changes, onlyPackageJsonDiffers) =
     (let isPackageJson = isPackageJsonPath filePath
      in case map_of registryFiles filePath of
           None \<Rightarrow>
             diffPaths localFiles registryFiles rest
               (changes @ [\<lparr>file_path = filePath, file_action = FileAdded\<rparr>],
                onlyPackageJsonDiffers \<and> isPackageJson)
         | Some registryContent \<Rightarrow>
            (case map_of localFiles filePath of
               None \<Rightarrow>
                 diffPaths localFiles registryFiles rest
                   (changes @ [\<lparr>file_path = filePath, file_action = FileRemoved\<rparr>],
                    onlyPackageJsonDiffers \<and> isPackageJson)
             | Some localContent \<Rightarrow>
                 if \<not> buffersEqual localContent registryContent
                 then diffPaths localFiles registryFiles rest
                        (changes @ [\<lparr>file_path = filePath, file_action = FileModified\<rparr>],
                         onlyPackageJsonDiffers \<and> isPackageJson)
                 else diffPaths localFiles registryFiles rest (changes, onlyPackageJsonDiffers)))"

definition allPaths :: "(string \<times> buffer) list \<Rightarrow> (string \<times> buffer) list \<Rightarrow> string list" where
  "allPaths localFiles registryFiles =
     foldl setKey (foldl setKey [] (map fst localFiles)) (map fst registryFiles)"

text \<open>The part of \<^verbatim>\<open>comparePackageFiles\<close> after the two archives are extracted.\<close>

definition compareExtracted ::
  "(string \<times> buffer) list \<Rightarrow> (string \<times> buffer) list \<Rightarrow> FileComparison"
where
  "compareExtracted localFiles registryFiles =
     (case diffPaths localFiles registryFiles (allPaths localFiles registryFiles) ([], True) of
        (changes, onlyPackageJsonDiffers) \<Rightarrow>
          \<lparr>identical = (changes = []), fileChanges = changes,
           packageJsonOnly = (onlyPackageJsonDiffers \<and> changes \<noteq> [])\<rparr>)"

definition comparePackageFiles :: "archive_lib \<Rightarrow> buffer \<Rightarrow> buffer \<Rightarrow> FileComparison option" where
  "comparePackageFiles A localTarball registryTarball =
     (if hashBuffer A localTarball = hashBuffer A registryTarball
      then Some \<lparr>identical = True, fileChanges = [], packageJsonOnly = False\<rparr>
      else
        (case extractTarball A localTarball of
           None \<Rightarrow> None
         | Some localFiles \<Rightarrow>
            (case extractTarball A registryTarball of
               None \<Rightarrow> None
             | Some registryFiles \<Rightarrow> Some (compareExtracted localFiles registryFiles))))"

definition isOnlyPackageJsonChange :: "FileChange list \<Rightarrow> bool" where
  "isOnlyPackageJsonChange changes =
     (if changes = [] then False else list_all (\<lambda>c. isPackageJsonPath (file_path c)) changes)"

text \<open>
  \<^verbatim>\<open>extractPackageJson\<close>; \<open>json_parse\<close> is \<^verbatim>\<open>JSON.parse\<close> of the content read as a
  manifest, \<open>None\<close> when it throws.
\<close>

definition extractPackageJson ::
  "archive_lib \<Rightarrow> (buffer \<Rightarrow> PackageJson option) \<Rightarrow> buffer \<Rightarrow> PackageJson option"
where
  "extractPackageJson A json_parse tarball =
     (case extractTarball A tarball of
        None \<Rightarrow> None
      | Some files \<Rightarrow>
         (case find isPackageJsonPath (map fst files) of
            None \<Rightarrow> None
          | Some pkgJsonPath \<Rightarrow>
             (case map_of files pkgJsonPath of
                None \<Rightarrow> None
              | Some content \<Rightarrow> json_parse content)))"


section \<open>needs-publish.ts\<close>

record NeedsPublishOptions = CompareOptions +
  opt_cwd :: "string option"
  opt_package :: "PackageJson option"
  opt_registry :: "string option"
  opt_packageJsonOnly :: "bool option"

datatype ChangeType = CT_version | CT_dependency | CT_field | CT_file | CT_first_publish

record ChangeDetail =
  cd_type :: ChangeType
  cd_field :: "string option"
  cd_oldValue :: "json option"
  cd_newValue :: "json option"
  cd_significance :: Significance

record NeedsPublishResult =
  needsPublish :: bool
  reason :: string
  changes :: "ChangeDetail list option"

text \<open>
  What the callback receives: a result, or the error of a rejected step. The second
  component of the orchestrator's value is the list of the calls it made, in order, to its
  collaborators and comparators.
\<close>

datatype outcome = Resolved NeedsPublishResult | Rejected

datatype event =
    ReadLocalManifest | NpmConfigGet | FetchPackument | FetchRegistryTarball | PackLocal
  | HashBuffer | ComparePackageFiles | ExtractPackageJson | ComparePackageJson

record fetch_error =
  err_code :: "string option"
  err_message :: "string option"

record packument =
  dist_tags_latest :: "string option"
  versions :: "(string \<times> PackageJson) list"

text \<open>
  The collaborators of the orchestrator:
  \<^item> \<open>process_cwd\<close> is \<^verbatim>\<open>process.cwd()\<close>;
  \<^item> \<open>readPackageJson dir\<close> is \<^verbatim>\<open>JSON.parse(fs.readFileSync(path.join(dir, 'package.json')))\<close>;
  \<^item> \<open>npm_config_get key\<close> is the output of \<^verbatim>\<open>npm config get key\<close>, \<open>None\<close> when it fails;
  \<^item> \<open>pacote_packument name registry\<close> and \<open>pacote_tarball url integrity\<close> fetch from the
    registry, \<open>Inl\<close> the error thrown;
  \<^item> \<open>pack_local dir\<close> resolves the manifest of \<open>dir\<close> and packs it;
  \<^item> \<open>undefined_read_message\<close> is the message of the \<^verbatim>\<open>TypeError\<close> for reading a property
    of \<^verbatim>\<open>undefined\<close>.
\<close>

record 'r env =
  env_libs :: "'r libs"
  env_archive :: archive_lib
  json_parse :: "buffer \<Rightarrow> PackageJson option"
  process_cwd :: string
  readPackageJson :: "string \<Rightarrow> PackageJson option"
  npm_config_get :: "string \<Rightarrow> string option"
  pacote_packument :: "string \<Rightarrow> string option \<Rightarrow> fetch_error + packument"
  pacote_tarball :: "string \<Rightarrow> string option \<Rightarrow> fetch_error + buffer"
  pack_local :: "string \<Rightarrow> fetch_error + buffer"
  undefined_read_message :: string

text \<open>
  Modelled from the spec: \<^verbatim>\<open>compat.ts\<close> is not among the sources; its
  \<^verbatim>\<open>stringStartsWith\<close> is the filesystem-portability shim for
  \<^verbatim>\<open>String.prototype.startsWith\<close>.
\<close>

definition stringStartsWith :: "string \<Rightarrow> string \<Rightarrow> bool" where
  "stringStartsWith s p = startsWith s p"

definition distString :: "PackageJson \<Rightarrow> string \<Rightarrow> string option" where
  "distString pkg k =
     (case getField pkg ''dist'' of
        Some (JObj ps) \<Rightarrow> (case map_of ps k of Some (JStr s) \<Rightarrow> Some s | _ \<Rightarrow> None)
      | _ \<Rightarrow> None)"

definition firstPublish :: "string \<Rightarrow> NeedsPublishResult" where
  "firstPublish why =
     \<lparr>needsPublish = True, reason = why,
      changes = Some [\<lparr>cd_type = CT_first_publish, cd_field = None, cd_oldValue = None,
                       cd_newValue = None, cd_significance = Critical\<rparr>]\<rparr>"

text \<open>The \<^verbatim>\<open>catch\<close> block of the registry step.\<close>

definition registryError :: "fetch_error \<Rightarrow> NeedsPublishResult" where
  "registryError e =
     (if err_code e = Some ''E404''
      then firstPublish ''Package not found in registry (first publish)''
      else \<lparr>needsPublish = True,
            reason = ''Error checking registry: '' @ orElse (err_message e) ''Unknown error'',
            changes = None\<rparr>)"

definition fieldDetail :: "Significance option \<Rightarrow> FieldChange \<Rightarrow> ChangeDetail" where
  "fieldDetail forced fc =
     \<lparr>cd_type = CT_field, cd_field = Some (fc_field fc), cd_oldValue = oldValue fc,
      cd_newValue = newValue fc,
      cd_significance = (case forced of Some s \<Rightarrow> s | None \<Rightarrow> significance fc)\<rparr>"

definition dependencyDetail :: "DependencyChange \<Rightarrow> ChangeDetail" where
  "dependencyDetail dc =
     \<lparr>cd_type = CT_dependency, cd_field = Some (depTypeName (dc_type dc) @ ''.'' @ dc_name dc),
      cd_oldValue = map_option JStr (oldSpec dc), cd_newValue = map_option JStr (newSpec dc),
      cd_significance = Significant\<rparr>"

definition fileDetail :: "FileChange \<Rightarrow> ChangeDetail" where
  "fileDetail fc =
     \<lparr>cd_type = CT_file, cd_field = Some (file_path fc), cd_oldValue = None,
      cd_newValue = None, cd_significance = Significant\<rparr>"

text \<open>Step 6, taken when only package.json differs and the option is not set.\<close>

definition semanticStep ::
  "'r env \<Rightarrow> ('a NeedsPublishOptions_scheme) \<Rightarrow> buffer \<Rightarrow> buffer \<Rightarrow> outcome \<times> event list"
where
  "semanticStep E options localTarball registryTarball =
     (case extractPackageJson (env_archive E) (json_parse E) localTarball of
        None \<Rightarrow> (Rejected, [ExtractPackageJson])
      | Some localTarballPkg \<Rightarrow>
     (case extractPackageJson (env_archive E) (json_parse E) registryTarball of
        None \<Rightarrow> (Rejected, [ExtractPackageJson, ExtractPackageJson])
      | Some registryTarballPkg \<Rightarrow>
     (case comparePackageJson (env_libs E) localTarballPkg registryTarballPkg
             (Some \<lparr>treatNarrowingAsEquivalent = treatNarrowingAsEquivalent options,
                    includeOptionalDeps = includeOptionalDeps options,
                    additionalSignificantFields = additionalSignificantFields options,
                    ignoreFields = ignoreFields options\<rparr>) of
        None \<Rightarrow> (Rejected, [ExtractPackageJson, ExtractPackageJson, ComparePackageJson])
      | Some pkgJsonComparison \<Rightarrow>
          (Resolved
             (if \<not> hasSignificantChanges pkgJsonComparison
              then \<lparr>needsPublish = False,
                    reason = ''Package.json changes are not significant for consumers'',
                    changes = Some (map (fieldDetail (Some Informational))
                                     (fieldChanges pkgJsonComparison))\<rparr>
              else \<lparr>needsPublish = True, reason = summary pkgJsonComparison,
                    changes = Some (map (fieldDetail None) (fieldChanges pkgJsonComparison)
                                    @ map dependencyDetail
                                        (filter isSignificantChange
                                           (dependencyChanges pkgJsonComparison)))\<rparr>),
           [ExtractPackageJson, ExtractPackageJson, ComparePackageJson]))))"

text \<open>Steps 4 to 7, once both tarballs are there.\<close>

definition compareTarballs ::
  "'r env \<Rightarrow> ('a NeedsPublishOptions_scheme) \<Rightarrow> buffer \<Rightarrow> buffer \<Rightarrow> outcome \<times> event list"
where
  "compareTarballs E options localTarball registryTarball =
     (let localHash = hashBuffer (env_archive E) localTarball;
          registryHash = hashBuffer (env_archive E) registryTarball
      in if localHash = registryHash
         then (Resolved \<lparr>needsPublish = False,
                 reason = ''No changes detected (hash: '' @ take 16 localHash @ ''...)'',
                 changes = None\<rparr>,
               [HashBuffer, HashBuffer])
         else
           (case comparePackageFiles (env_archive E) localTarball registryTarball of
              None \<Rightarrow> (Rejected, [HashBuffer, HashBuffer, ComparePackageFiles])
            | Some fileComparison \<Rightarrow>
                if identical fileComparison
                then (Resolved \<lparr>needsPublish = False,
                        reason = ''Files identical (tarball metadata differs)'',
                        changes = None\<rparr>,
                      [HashBuffer, HashBuffer, ComparePackageFiles])
                else if packageJsonOnly fileComparison \<and> \<not> (opt_packageJsonOnly options = Some True)
                then (case semanticStep E options localTarball registryTarball of
                        (out, evs) \<Rightarrow> (out, [HashBuffer, HashBuffer, ComparePackageFiles] @ evs))
                else (Resolved \<lparr>needsPublish = True,
                        reason = ''Code changes detected (''
                                   @ show_nat (length (fileChanges fileComparison))
                                   @ '' files changed)'',
                        changes = Some (map fileDetail (fileChanges fileComparison))\<rparr>,
                      [HashBuffer, HashBuffer, ComparePackageFiles])))"

text \<open>Step 1 and 2: the registry side, up to the registry tarball.\<close>

definition fetchRegistry ::
  "'r env \<Rightarrow> PackageJson \<Rightarrow> string option \<Rightarrow> (NeedsPublishResult + buffer) \<times> event list"
where
  "fetchRegistry E localPkg registry =
     (case pacote_packument E (pkg_name localPkg) (orUndefined registry) of
        Inl e \<Rightarrow> (Inl (registryError e), [FetchPackument])
      | Inr pm \<Rightarrow>
         (case orUndefined (dist_tags_latest pm) of
            None \<Rightarrow>
              (Inl (firstPublish ''No latest version found in registry (first publish)''),
               [FetchPackument])
          | Some latestVersion \<Rightarrow>
              if pkg_version localPkg \<noteq> latestVersion
              then (Inl \<lparr>needsPublish = True,
                      reason = ''Version differs (local: '' @ pkg_version localPkg
                                 @ '', registry: '' @ latestVersion @ '')'',
                      changes = Some [\<lparr>cd_type = CT_version, cd_field = Some ''version'',
                                       cd_oldValue = Some (JStr latestVersion),
                                       cd_newValue = Some (JStr (pkg_version localPkg)),
                                       cd_significance = Critical\<rparr>]\<rparr>,
                    [FetchPackument])
              else
                (case map_of (versions pm) latestVersion of
                   None \<Rightarrow>
                     (Inl (registryError
                             \<lparr>err_code = None, err_message = Some (undefined_read_message E)\<rparr>),
                      [FetchPackument])
                 | Some registryPkg \<Rightarrow>
                    (case orUndefined (distString registryPkg ''tarball'') of
                       None \<Rightarrow>
                         (Inl (firstPublish ''Registry package has no tarball URL''),
                          [FetchPackument])
                     | Some tarballUrl \<Rightarrow>
                        (case pacote_tarball E tarballUrl (distString registryPkg ''integrity'') of
                           Inl e \<Rightarrow> (Inl (registryError e), [FetchPackument, FetchRegistryTarball])
                         | Inr registryTarball \<Rightarrow>
                             (Inr registryTarball, [FetchPackument, FetchRegistryTarball]))))))"

text \<open>The registry URL of a scoped package, when the options give none.\<close>

definition scopeRegistry ::
  "'r env \<Rightarrow> PackageJson \<Rightarrow> string option \<Rightarrow> string option \<times> event list"
where
  "scopeRegistry E localPkg registry =
     (if orUndefined registry = None \<and> stringStartsWith (pkg_name localPkg) ''@''
      then (case npm_config_get E
                   (takeWhile (\<lambda>c. c \<noteq> CHR ''/'') (pkg_name localPkg) @ '':registry'') of
              None \<Rightarrow> (registry, [NpmConfigGet])
            | Some stdout \<Rightarrow>
                (if trim stdout = ''undefined'' then None else Some (trim stdout), [NpmConfigGet]))
      else (registry, []))"

definition needsPublishImpl ::
  "'r env \<Rightarrow> ('a NeedsPublishOptions_scheme) \<Rightarrow> outcome \<times> event list"
where
  "needsPublishImpl E options =
     (let cwd = orElse (opt_cwd options) (process_cwd E)
      in case (case opt_package options of
                 Some pkg \<Rightarrow> (Some pkg, [])
               | None \<Rightarrow> (readPackageJson E cwd, [ReadLocalManifest])) of
           (None, evs0) \<Rightarrow> (Rejected, evs0)
         | (Some localPkg, evs0) \<Rightarrow>
             if truthy (getField localPkg ''private'')
             then (Resolved \<lparr>needsPublish = False, reason = ''Package is private'',
                     changes = None\<rparr>, evs0)
             else
               (case scopeRegistry E localPkg (opt_registry options) of
                  (registry, evs1) \<Rightarrow>
               (case fetchRegistry E localPkg registry of
                  (Inl res, evs2) \<Rightarrow> (Resolved res, evs0 @ evs1 @ evs2)
                | (Inr registryTarball, evs2) \<Rightarrow>
                   (case pack_local E cwd of
                      Inl e \<Rightarrow>
                        (Resolved \<lparr>needsPublish = True,
                           reason = ''Error packing local package: ''
                                      @ orElse (err_message e) ''Unknown error'',
                           changes = None\<rparr>,
                         evs0 @ evs1 @ evs2 @ [PackLocal])
                    | Inr localTarball \<Rightarrow>
                       (case compareTarballs E options localTarball registryTarball of
                          (out, evs3) \<Rightarrow> (out, evs0 @ evs1 @ evs2 @ [PackLocal] @ evs3))))))"
section \<open>The libraries on the specifiers of the examples\<close>

text \<open>
  \<open>example_libs\<close> gives the answers of npm-package-arg and semver on the specifiers that
  the examples below use: a caret, tilde or wildcard range is the interval from its minimum
  version to its exclusive upper bound, with the text that semver prints for it;
  \<^verbatim>\<open>latest\<close> and \<^verbatim>\<open>next\<close> are tags; \<^verbatim>\<open>npm:lodash@^4.17.0\<close> is an alias. On every
  other string it answers like a resolver and a range parser that reject the input, which
  the libraries do not, so it is used at the listed specifiers only.
\<close>

record sv_range =
  rng_text :: string
  rng_min :: "nat \<times> nat \<times> nat"
  rng_max :: "(nat \<times> nat \<times> nat) option"

definition ver_less :: "nat \<times> nat \<times> nat \<Rightarrow> nat \<times> nat \<times> nat \<Rightarrow> bool" where
  "ver_less a b =
     (fst a < fst b \<or> (fst a = fst b \<and>
        (fst (snd a) < fst (snd b) \<or> (fst (snd a) = fst (snd b) \<and> snd (snd a) < snd (snd b)))))"

definition sv_subset :: "sv_range \<Rightarrow> sv_range \<Rightarrow> bool" where
  "sv_subset a b =
     (\<not> ver_less (rng_min a) (rng_min b) \<and>
      (case rng_max b of
         None \<Rightarrow> True
       | Some hb \<Rightarrow> (case rng_max a of None \<Rightarrow> False | Some ha \<Rightarrow> \<not> ver_less hb ha)))"

definition sv_intersects :: "sv_range \<Rightarrow> sv_range \<Rightarrow> bool" where
  "sv_intersects a b =
     ((case rng_max a of None \<Rightarrow> True | Some ha \<Rightarrow> ver_less (rng_min b) ha) \<and>
      (case rng_max b of None \<Rightarrow> True | Some hb \<Rightarrow> ver_less (rng_min a) hb))"

definition example_ranges :: "(string \<times> sv_range) list" where
  "example_ranges =
     [(''^1.2.3'', \<lparr>rng_text = ''>=1.2.3 <2.0.0-0'', rng_min = (1, 2, 3), rng_max = Some (2, 0, 0)\<rparr>),
      (''^1.2.4'', \<lparr>rng_text = ''>=1.2.4 <2.0.0-0'', rng_min = (1, 2, 4), rng_max = Some (2, 0, 0)\<rparr>),
      (''^1.2'', \<lparr>rng_text = ''>=1.2.0 <2.0.0-0'', rng_min = (1, 2, 0), rng_max = Some (2, 0, 0)\<rparr>),
      (''^1.2.0'', \<lparr>rng_text = ''>=1.2.0 <2.0.0-0'', rng_min = (1, 2, 0), rng_max = Some (2, 0, 0)\<rparr>),
      (''^1.0.0'', \<lparr>rng_text = ''>=1.0.0 <2.0.0-0'', rng_min = (1, 0, 0), rng_max = Some (2, 0, 0)\<rparr>),
      (''^2.0.0'', \<lparr>rng_text = ''>=2.0.0 <3.0.0-0'', rng_min = (2, 0, 0), rng_max = Some (3, 0, 0)\<rparr>),
      (''^4.17.0'', \<lparr>rng_text = ''>=4.17.0 <5.0.0-0'', rng_min = (4, 17, 0), rng_max = Some (5, 0, 0)\<rparr>),
      (''^4.17.21'', \<lparr>rng_text = ''>=4.17.21 <5.0.0-0'', rng_min = (4, 17, 21), rng_max = Some (5, 0, 0)\<rparr>),
      (''^4.18.0'', \<lparr>rng_text = ''>=4.18.0 <5.0.0-0'', rng_min = (4, 18, 0), rng_max = Some (5, 0, 0)\<rparr>),
      (''~4.17.0'', \<lparr>rng_text = ''>=4.17.0 <4.18.0-0'', rng_min = (4, 17, 0), rng_max = Some (4, 18, 0)\<rparr>),
      (''~4.17.5'', \<lparr>rng_text = ''>=4.17.5 <4.18.0-0'', rng_min = (4, 17, 5), rng_max = Some (4, 18, 0)\<rparr>),
      (''~4.17'', \<lparr>rng_text = ''>=4.17.0 <4.18.0-0'', rng_min = (4, 17, 0), rng_max = Some (4, 18, 0)\<rparr>),
      (''*'', \<lparr>rng_text = '''', rng_min = (0, 0, 0), rng_max = None\<rparr>)]"

definition example_npa :: "string \<Rightarrow> string option \<Rightarrow> npa_result option" where
  "example_npa spec wh =
     (if spec \<in> fst ` set example_ranges
      then Some \<lparr>npaType = NpaRange, fetchSpec = Some spec, saveSpec = None,
                 gitCommittish = None, gitRange = None, subSpecRaw = None\<rparr>
      else if spec = ''latest'' \<or> spec = ''next''
      then Some \<lparr>npaType = NpaTag, fetchSpec = Some spec, saveSpec = None,
                 gitCommittish = None, gitRange = None, subSpecRaw = None\<rparr>
      else if spec = ''npm:lodash@^4.17.0''
      then Some \<lparr>npaType = NpaAlias, fetchSpec = None, saveSpec = None,
                 gitCommittish = None, gitRange = None, subSpecRaw = Some ''^4.17.0''\<rparr>
      else None)"

definition example_libs :: "sv_range libs" where
  "example_libs =
     \<lparr>npa_resolve = example_npa,
      semver_Range = map_of example_ranges,
      range_range = rng_text,
      semver_valid = (\<lambda>s. False),
      semver_minVersion = (\<lambda>r. Some (fst (rng_min r), fst (snd (rng_min r)))),
      semver_subset = (\<lambda>a b. Some (sv_subset a b)),
      range_intersects = sv_intersects\<rparr>"


section \<open>Manifests of the examples\<close>









section \<open>Archives and collaborators of the examples\<close>

text \<open>
  Three extracted trees: the published one, one with an edited manifest and one with an
  edited source file. The content of a manifest file is a placeholder that
  \<open>example_json_parse\<close> reads as a manifest: \<open>OLD\<close> and \<open>NEW\<close> differ in the
  description only.
\<close>

definition tree_published :: "(string \<times> buffer) list" where
  "tree_published = [(''package/package.json'', ''OLD''), (''package/a.js'', ''old code'')]"


definition tree_code_edited :: "(string \<times> buffer) list" where
  "tree_code_edited = [(''package/package.json'', ''OLD''), (''package/a.js'', ''new code'')]"

definition manifest_desc_old :: PackageJson where
  "manifest_desc_old =
     \<lparr>pkg_name = ''p'', pkg_version = ''1.0.0'',
      pkg_fields = [(''description'', JStr ''old text'')]\<rparr>"

definition manifest_desc_new :: PackageJson where
  "manifest_desc_new =
     \<lparr>pkg_name = ''p'', pkg_version = ''1.0.0'',
      pkg_fields = [(''description'', JStr ''new text'')]\<rparr>"

definition manifest_published :: PackageJson where
  "manifest_published =
     \<lparr>pkg_name = ''p'', pkg_version = ''1.0.0'',
      pkg_fields =
        [(''description'', JStr ''old text''),
         (''dist'', JObj [(''tarball'', JStr ''https://registry.example/p-1.0.0.tgz'')])]\<rparr>"

definition manifest_private :: PackageJson where
  "manifest_private =
     \<lparr>pkg_name = ''p'', pkg_version = ''1.0.0'', pkg_fields = [(''private'', JBool True)]\<rparr>"

definition example_json_parse :: "buffer \<Rightarrow> PackageJson option" where
  "example_json_parse b =
     (if b = ''NEW'' then Some manifest_desc_new
      else if b = ''OLD'' then Some manifest_desc_old
      else None)"

text \<open>
  The archive \<open>local archive\<close> holds the tree given as parameter, the archive
  \<open>registry archive\<close> the published tree. The digest of the examples is the archive
  itself: it is equal for equal archives only, like SHA-512 on these inputs.
\<close>

definition example_archive :: "(string \<times> buffer) list \<Rightarrow> archive_lib" where
  "example_archive localTree =
     \<lparr>sha512_base64 = (\<lambda>b. b),
      tar_entries = (\<lambda>t. if t = ''local archive'' then Some localTree
                          else if t = ''registry archive'' then Some tree_published
                          else None)\<rparr>"

text \<open>
  A working directory \<open>/work\<close> with the package \<open>p\<close> at version 1.0.0, which the registry
  has at the same version.
\<close>

definition example_env :: "(string \<times> buffer) list \<Rightarrow> sv_range env" where
  "example_env localTree =
     \<lparr>env_libs = example_libs,
      env_archive = example_archive localTree,
      json_parse = example_json_parse,
      process_cwd = ''/work'',
      readPackageJson = (\<lambda>dir. if dir = ''/work'' then Some manifest_desc_new else None),
      npm_config_get = (\<lambda>k. None),
      pacote_packument =
        (\<lambda>nm reg. if nm = ''p''
                   then Inr \<lparr>dist_tags_latest = Some ''1.0.0'',
                             versions = [(''1.0.0'', manifest_published)]\<rparr>
                   else Inl \<lparr>err_code = Some ''E404'', err_message = Some ''Not Found''\<rparr>),
      pacote_tarball =
        (\<lambda>u integrity. if u = ''https://registry.example/p-1.0.0.tgz''
                         then Inr ''registry archive''
                         else Inl \<lparr>err_code = Some ''E404'', err_message = Some ''Not Found''\<rparr>),
      pack_local = (\<lambda>dir. Inr ''local archive''),
      undefined_read_message = ''Cannot read properties of undefined''\<rparr>"

definition default_options :: NeedsPublishOptions where
  "default_options =
     \<lparr>treatNarrowingAsEquivalent = None, includeOptionalDeps = None,
      additionalSignificantFields = None, ignoreFields = None,
      opt_cwd = None, opt_package = None, opt_registry = None, opt_packageJsonOnly = None\<rparr>"

section \<open>Predicates used in the statements\<close>

text \<open>The invariant of a comparison: it is flagged equivalent only with one of five relations.\<close>

definition equivalentOnlyWhen :: "SpecifierComparison \<Rightarrow> bool" where
  "equivalentOnlyWhen r =
     (equivalent r \<longrightarrow>
        relation r \<in> {R_identical, R_normalized_equal, R_semantically_equal,
                       R_same_major_caret, R_same_minor_tilde})"

text \<open>
  npm-package-arg rejects nested aliases: the sub-specifier of an alias never resolves to
  an alias again. The parser and the comparator terminate on every input under this
  condition on the resolver, and the sources have no guard of their own.
\<close>

definition rejectsNestedAliases :: "'r libs \<Rightarrow> string option \<Rightarrow> bool" where
  "rejectsNestedAliases L wh =
     (\<forall>s q sub. npa_resolve L s wh = Some q \<and> npaType q = NpaAlias \<and> subSpecRaw q = Some sub
        \<longrightarrow> (\<forall>q'. npa_resolve L sub wh = Some q' \<longrightarrow> npaType q' \<noteq> NpaAlias))"



text \<open>
  The classification of one path in the words of the specification: added when it is in
  the new tree only, removed when it is in the old tree only, modified when it is in both
  with different bytes, no entry otherwise.
\<close>

definition pathChange ::
  "(string \<times> buffer) list \<Rightarrow> (string \<times> buffer) list \<Rightarrow> string \<Rightarrow> FileChange list"
where
  "pathChange newFiles oldFiles p =
     (case (map_of newFiles p, map_of oldFiles p) of
        (_, None) \<Rightarrow> [\<lparr>file_path = p, file_action = FileAdded\<rparr>]
      | (None, Some _) \<Rightarrow> [\<lparr>file_path = p, file_action = FileRemoved\<rparr>]
      | (Some a, Some b) \<Rightarrow>
          if a \<noteq> b then [\<lparr>file_path = p, file_action = FileModified\<rparr>] else [])"



section \<open>Properties of the semantic-change mapping\<close>

text \<open>
  C4, as amended. For every comparison \<open>c\<close> and every options value, the mapping tests the flag
  \<open>equivalent\<close> first: with the flag set it returns \<open>none\<close> for the relation \<open>identical\<close>
  and \<open>equivalent\<close> for any other relation; without the flag it returns, for the relation
  \<open>narrowed\<close>, \<open>equivalent\<close> when \<open>treatNarrowingAsEquivalent\<close> is true or absent and
  \<open>narrowed\<close> when it is false, \<open>widened\<close> for the relation \<open>widened\<close> whatever the
  options, and \<open>incompatible\<close> for every other relation.
\<close>

theorem comparisonToSemanticChange_rules:
  "(equivalent c \<and> relation c = R_identical \<longrightarrow> comparisonToSemanticChange c opts = SC_none)
   \<and> (equivalent c \<and> relation c \<noteq> R_identical
        \<longrightarrow> comparisonToSemanticChange c opts = SC_equivalent)
   \<and> (\<not> equivalent c \<and> relation c = R_narrowed
        \<and> (opts = None \<or> (\<exists>p. opts = Some p \<and> treatNarrowingAsEquivalent p \<noteq> Some False))
        \<longrightarrow> comparisonToSemanticChange c opts = SC_equivalent)
   \<and> (\<not> equivalent c \<and> relation c = R_narrowed
        \<and> (\<exists>p. opts = Some p \<and> treatNarrowingAsEquivalent p = Some False)
        \<longrightarrow> comparisonToSemanticChange c opts = SC_narrowed)
   \<and> (\<not> equivalent c \<and> relation c = R_widened
        \<longrightarrow> comparisonToSemanticChange c opts = SC_widened)
   \<and> (\<not> equivalent c \<and> relation c \<noteq> R_narrowed \<and> relation c \<noteq> R_widened
        \<longrightarrow> comparisonToSemanticChange c opts = SC_incompatible)"
  by (cases "relation c") (auto simp: comparisonToSemanticChange_def split: option.splits)

theorem comparisonToSemanticChange_rules_witness:
  "comparisonToSemanticChange (result True R_identical) None = SC_none
   \<and> comparisonToSemanticChange (result True R_same_major_caret) None = SC_equivalent
   \<and> comparisonToSemanticChange (result False R_narrowed) None = SC_equivalent
   \<and> comparisonToSemanticChange (result False R_narrowed)
        (Some \<lparr>treatNarrowingAsEquivalent = Some False\<rparr>) = SC_narrowed
   \<and> comparisonToSemanticChange (result False R_widened)
        (Some \<lparr>treatNarrowingAsEquivalent = Some True\<rparr>) = SC_widened
   \<and> comparisonToSemanticChange (result False R_disjoint) None = SC_incompatible"
  using comparisonToSemanticChange_rules [of "result True R_identical" None]
    comparisonToSemanticChange_rules [of "result True R_same_major_caret" None]
    comparisonToSemanticChange_rules [of "result False R_narrowed" None]
    comparisonToSemanticChange_rules
      [of "result False R_narrowed" "Some \<lparr>treatNarrowingAsEquivalent = Some False\<rparr>"]
    comparisonToSemanticChange_rules
      [of "result False R_widened" "Some \<lparr>treatNarrowingAsEquivalent = Some True\<rparr>"]
    comparisonToSemanticChange_rules [of "result False R_disjoint" None]
  by (simp add: result_def)

text \<open>
  The claim as written gives \<open>none\<close> to every comparison whose relation is \<open>identical\<close>;
  a comparison with that relation and the flag unset is mapped to \<open>incompatible\<close>.
\<close>

theorem comparisonToSemanticChange_identical_unflagged:
  "comparisonToSemanticChange \<lparr>equivalent = False, relation = R_identical, detail = None\<rparr> None
     = SC_incompatible
   \<and> comparisonToSemanticChange \<lparr>equivalent = False, relation = R_identical, detail = None\<rparr> None
     \<noteq> SC_none"
  by (simp add: comparisonToSemanticChange_def)


section \<open>Properties of the specifier parser\<close>

lemma parseStep_sub_done:
  assumes "rejectsNestedAliases L wh" and "parseStep L s wh = AliasOf sub"
  shows "\<exists>p. parseStep L sub wh = Done p"
proof -
  from assms(2) obtain q where
    "npa_resolve L s wh = Some q" "npaType q = NpaAlias" "subSpecRaw q = Some sub"
    by (auto simp: parseStep_def split: if_splits option.splits npa_type.splits)
  with assms(1) have "\<And>q'. npa_resolve L sub wh = Some q' \<Longrightarrow> npaType q' \<noteq> NpaAlias"
    unfolding rejectsNestedAliases_def by blast
  then show ?thesis
    by (auto simp: parseStep_def split: option.splits npa_type.splits)
qed

lemma parseStep_done_raw: "parseStep L s wh = Done p \<Longrightarrow> raw p = s"
  by (auto simp: parseStep_def parseAsRangeOrTag_def
      split: if_splits option.splits npa_type.splits)

lemma parseVersionSpecifier_some:
  assumes "rejectsNestedAliases L wh"
  shows "\<exists>p. parseVersionSpecifier L spec wh = Some p \<and> raw p = spec"
proof (cases "parseStep L spec wh")
  case (Done p)
  then show ?thesis
    by (simp add: parseVersionSpecifier.simps parseStep_done_raw)
next
  case (AliasOf sub)
  from parseStep_sub_done [OF assms AliasOf]
  obtain p where "parseStep L sub wh = Done p" by blast
  then have "parseVersionSpecifier L sub wh = Some p"
    by (simp add: parseVersionSpecifier.simps)
  with AliasOf show ?thesis
    by (subst parseVersionSpecifier.simps) simp
qed

text \<open>
  C7. Every exception inside the parser is caught by the parser, so it fails to return only
  by recursing for ever on an alias; with a resolver that rejects nested aliases, as
  npm-package-arg does, it returns a parsed specifier for every input string and every
  context path. When the specifier has no workspace prefix, is not empty, the resolver
  throws or returns a type the parser does not know, and the string is no semver range,
  the result is a tag whose normalized form is the raw string.
\<close>

theorem parseVersionSpecifier_returns:
  assumes "rejectsNestedAliases L wh"
  shows "(\<exists>p. parseVersionSpecifier L spec wh = Some p \<and> raw p = spec)
    \<and> (\<not> startsWith spec ''workspace:'' \<and> spec \<noteq> []
        \<and> (case npa_resolve L spec wh of None \<Rightarrow> True | Some q \<Rightarrow> npaType q = NpaOther)
        \<and> semver_Range L spec = None
        \<longrightarrow> parseVersionSpecifier L spec wh = Some (Parsed T_tag spec spec None None None))"
proof
  show "\<exists>p. parseVersionSpecifier L spec wh = Some p \<and> raw p = spec"
    by (rule parseVersionSpecifier_some [OF assms])
next
  show "\<not> startsWith spec ''workspace:'' \<and> spec \<noteq> []
        \<and> (case npa_resolve L spec wh of None \<Rightarrow> True | Some q \<Rightarrow> npaType q = NpaOther)
        \<and> semver_Range L spec = None
        \<longrightarrow> parseVersionSpecifier L spec wh = Some (Parsed T_tag spec spec None None None)"
    by (subst parseVersionSpecifier.simps)
       (auto simp: parseStep_def parseAsRangeOrTag_def split: option.splits)
qed

theorem parseVersionSpecifier_returns_witness:
  "rejectsNestedAliases example_libs None
   \<and> (\<exists>p. parseVersionSpecifier example_libs ''npm:lodash@^4.17.0'' None = Some p
          \<and> raw p = ''npm:lodash@^4.17.0'')
   \<and> parseVersionSpecifier example_libs ''not a range'' None
       = Some (Parsed T_tag ''not a range'' ''not a range'' None None None)"
proof -
  have r: "rejectsNestedAliases example_libs None"
    unfolding rejectsNestedAliases_def
    by (auto simp: example_libs_def example_npa_def example_ranges_def split: if_splits)
  have h: "\<not> startsWith ''not a range'' ''workspace:'' \<and> ''not a range'' \<noteq> []
        \<and> (case npa_resolve example_libs ''not a range'' None of
              None \<Rightarrow> True | Some q \<Rightarrow> npaType q = NpaOther)
        \<and> semver_Range example_libs ''not a range'' = None"
    by (simp add: startsWith_def example_libs_def example_npa_def example_ranges_def)
  from parseVersionSpecifier_returns [OF r, of "''npm:lodash@^4.17.0''"]
    parseVersionSpecifier_returns [OF r, of "''not a range''"] h r
  show ?thesis by blast
qed


section \<open>Properties of the specifier comparator\<close>

lemma equivalentOnlyWhen_result [simp]:
  "equivalentOnlyWhen (result e r) =
     (e \<longrightarrow> r \<in> {R_identical, R_normalized_equal, R_semantically_equal,
                  R_same_major_caret, R_same_minor_tilde})"
  by (simp add: equivalentOnlyWhen_def result_def)

lemma equivalentOnlyWhen_resultWith [simp]:
  "equivalentOnlyWhen (resultWith e r d) =
     (e \<longrightarrow> r \<in> {R_identical, R_normalized_equal, R_semantically_equal,
                  R_same_major_caret, R_same_minor_tilde})"
  by (simp add: equivalentOnlyWhen_def resultWith_def)

lemma compareSemverSpecs_inv: "equivalentOnlyWhen (compareSemverSpecs L a b)"
  by (simp add: compareSemverSpecs_def Let_def split: option.splits)

lemma compareGitSpecs_inv: "equivalentOnlyWhen (compareGitSpecs L p q)"
  by (simp add: compareGitSpecs_def compareSemverSpecs_inv split: option.splits)

lemma compareByType_inv: "equivalentOnlyWhen (compareByType L a b p q)"
  by (simp add: compareByType_def compareSemverSpecs_inv compareGitSpecs_inv
      compareFileSpecs_def compareTagSpecs_def compareUrlSpecs_def
      split: VersionSpecifierType.splits)

lemma compareWorkspaceSpecs_inv: "equivalentOnlyWhen (compareWorkspaceSpecs p q)"
  by (simp add: compareWorkspaceSpecs_def)

lemma compareAliasSpecs_inv: "compareAliasSpecs p q = Answer r \<Longrightarrow> equivalentOnlyWhen r"
  by (auto simp add: compareAliasSpecs_def split: option.splits if_splits)

text \<open>
  C6. Whatever the two strings, the context path and the libraries' answers, a result of
  \<^verbatim>\<open>compareVersionSpecifiers\<close> that is flagged equivalent has one of the relations
  identical, normalized-equal, semantically-equal, same-major-caret, same-minor-tilde; this
  covers the workspace, alias, git, file, tag and url branches. The proof is by induction
  on the calls of the comparator.
\<close>

theorem compareVersionSpecifiers_equivalent_relation:
  assumes "compareVersionSpecifiers L specA specB wh = Some r" and "equivalent r"
  shows "relation r \<in> {R_identical, R_normalized_equal, R_semantically_equal,
                       R_same_major_caret, R_same_minor_tilde}"
proof -
  have "equivalentOnlyWhen r"
  proof (rule compareVersionSpecifiers.raw_induct
      [where P = "\<lambda>_ _ _ _ r. equivalentOnlyWhen r", OF _ assms(1)], goal_cases)
    case (1 cvs L specA specB wh y)
    from 1(2) show ?case
      by (auto simp: compareWorkspaceSpecs_inv compareByType_inv
          dest: compareAliasSpecs_inv 1(1) split: if_splits option.splits alias_step.splits)
  qed
  with assms(2) show ?thesis by (simp add: equivalentOnlyWhen_def)
qed

theorem compareVersionSpecifiers_equivalent_relation_witness:
  "compareVersionSpecifiers example_libs ''npm:lodash@^4.17.0'' ''^4.17.21'' None
     = Some (result True R_same_major_caret)
   \<and> equivalent (result True R_same_major_caret)
   \<and> relation (result True R_same_major_caret)
       \<in> {R_identical, R_normalized_equal, R_semantically_equal,
          R_same_major_caret, R_same_minor_tilde}"
proof -
  have a: "compareVersionSpecifiers example_libs ''npm:lodash@^4.17.0'' ''^4.17.21'' None
             = Some (result True R_same_major_caret)"
    by code_simp
  have b: "equivalent (result True R_same_major_caret)"
    by (simp add: result_def)
  from compareVersionSpecifiers_equivalent_relation [OF a b] a b show ?thesis by simp
qed

text \<open>
  The comparator returns on every pair of strings when the resolver rejects nested
  aliases: a call on an alias calls the comparator once more, on specifiers whose parsed
  form has no alias target.
\<close>

lemma parseStep_done_no_target: "parseStep L s wh = Done p \<Longrightarrow> aliasTarget p = None"
  by (auto simp: parseStep_def parseAsRangeOrTag_def
      split: if_splits option.splits npa_type.splits)

lemma parseVersionSpecifier_done: "parseStep L s wh = Done p \<Longrightarrow> parseVersionSpecifier L s wh = Some p"
  by (simp add: parseVersionSpecifier.simps)

lemma parseVersionSpecifier_target:
  assumes r: "rejectsNestedAliases L wh"
    and p: "parseVersionSpecifier L s wh = Some p" and t: "aliasTarget p = Some t"
  shows "parseVersionSpecifier L (raw t) wh = Some t \<and> aliasTarget t = None"
proof (cases "parseStep L s wh")
  case (Done p')
  with p have "p = p'" by (simp add: parseVersionSpecifier.simps)
  with Done t show ?thesis by (simp add: parseStep_done_no_target)
next
  case (AliasOf sub)
  from parseStep_sub_done [OF r AliasOf] obtain t' where t': "parseStep L sub wh = Done t'" by blast
  with AliasOf p have "p = Parsed T_alias s s None (Some t') None"
    by (subst (asm) parseVersionSpecifier.simps) (simp add: parseVersionSpecifier_done)
  with t have "t = t'" by simp
  with t' show ?thesis
    by (simp add: parseVersionSpecifier_done parseStep_done_raw parseStep_done_no_target)
qed

lemma compareVersionSpecifiers_settled:
  assumes "parseVersionSpecifier L a wh = Some pa" "aliasTarget pa = None"
    and "parseVersionSpecifier L b wh = Some pb" "aliasTarget pb = None"
  shows "\<exists>r. compareVersionSpecifiers L a b wh = Some r"
  by (subst compareVersionSpecifiers.simps)
     (simp add: assms compareAliasSpecs_def)

lemma parseVersionSpecifier_target_is_alias:
  assumes "parseVersionSpecifier L s wh = Some p" and "aliasTarget p = Some t"
  shows "ptype p = T_alias"
proof (cases "parseStep L s wh")
  case (Done p')
  with assms(1) have "p = p'" by (simp add: parseVersionSpecifier.simps)
  with Done assms(2) show ?thesis by (simp add: parseStep_done_no_target)
next
  case (AliasOf sub)
  with assms(1) show ?thesis
    by (subst (asm) parseVersionSpecifier.simps) (auto simp: bind_eq_Some_conv)
qed

lemma compareVersionSpecifiers_returns:
  assumes r: "rejectsNestedAliases L wh"
  shows "\<exists>res. compareVersionSpecifiers L a b wh = Some res"
proof -
  from parseVersionSpecifier_some [OF r, of a]
  obtain pa where pa: "parseVersionSpecifier L a wh = Some pa" "raw pa = a" by blast
  from parseVersionSpecifier_some [OF r, of b]
  obtain pb where pb: "parseVersionSpecifier L b wh = Some pb" "raw pb = b" by blast
  show ?thesis
  proof (cases "compareAliasSpecs pa pb")
    case (Answer x)
    then show ?thesis
      by (subst compareVersionSpecifiers.simps) (simp add: pa pb)
  next
    case (Recurse a' b')
    have sa: "\<exists>q. parseVersionSpecifier L a' wh = Some q \<and> aliasTarget q = None"
    proof (cases "aliasTarget pa")
      case None
      with Recurse have "a' = a"
        by (auto simp: compareAliasSpecs_def pa split: option.splits if_splits)
      with None pa show ?thesis by simp
    next
      case (Some ta)
      with Recurse parseVersionSpecifier_target_is_alias [OF pa(1) Some] have "a' = raw ta"
        by (auto simp: compareAliasSpecs_def split: option.splits if_splits)
      with parseVersionSpecifier_target [OF r pa(1) Some] show ?thesis by simp
    qed
    have sb: "\<exists>q. parseVersionSpecifier L b' wh = Some q \<and> aliasTarget q = None"
    proof (cases "aliasTarget pb")
      case None
      with Recurse have "b' = b"
        by (auto simp: compareAliasSpecs_def pb split: option.splits if_splits)
      with None pb show ?thesis by simp
    next
      case (Some tb)
      show ?thesis
      proof (cases "aliasTarget pa")
        case None
        with Recurse Some parseVersionSpecifier_target_is_alias [OF pb(1) Some] have "b' = raw tb"
          by (auto simp: compareAliasSpecs_def split: option.splits if_splits)
        with parseVersionSpecifier_target [OF r pb(1) Some] show ?thesis by simp
      next
        case (Some ta)
        with Recurse \<open>aliasTarget pb = Some tb\<close> parseVersionSpecifier_target_is_alias [OF pb(1) \<open>aliasTarget pb = Some tb\<close>]
          parseVersionSpecifier_target_is_alias [OF pa(1) Some] have "b' = raw tb"
          by (auto simp: compareAliasSpecs_def split: option.splits if_splits)
        with parseVersionSpecifier_target [OF r pb(1) \<open>aliasTarget pb = Some tb\<close>] show ?thesis by simp
      qed
    qed
    from sa sb have "\<exists>res. compareVersionSpecifiers L a' b' wh = Some res"
      by (auto intro: compareVersionSpecifiers_settled)
    then show ?thesis
      by (subst compareVersionSpecifiers.simps) (auto simp add: pa pb Recurse)
  qed
qed

text \<open>
  A comparison that the comparator returns with the relation identical is flagged
  equivalent, so on the results of the comparator the semantic-change mapping sends
  identical to \<open>none\<close>.
\<close>

lemma compareSemverSpecs_identical: "relation (compareSemverSpecs L a b) \<noteq> R_identical"
  by (simp add: compareSemverSpecs_def Let_def result_def resultWith_def split: option.splits)

lemma compareByType_identical:
  "relation (compareByType L a b p q) = R_identical \<Longrightarrow> equivalent (compareByType L a b p q)"
  by (cases "ptype p")
     (auto simp: compareByType_def compareSemverSpecs_identical compareGitSpecs_def
        compareFileSpecs_def compareTagSpecs_def compareUrlSpecs_def result_def resultWith_def
        split: option.splits if_splits)

lemma compareWorkspaceSpecs_identical:
  "relation (compareWorkspaceSpecs p q) = R_identical \<Longrightarrow> equivalent (compareWorkspaceSpecs p q)"
  by (auto simp: compareWorkspaceSpecs_def result_def resultWith_def split: if_splits)

lemma compareAliasSpecs_identical: "compareAliasSpecs p q = Answer r \<Longrightarrow> relation r \<noteq> R_identical"
  by (auto simp: compareAliasSpecs_def result_def split: option.splits if_splits)

lemma compareVersionSpecifiers_identical_equivalent:
  assumes "compareVersionSpecifiers L specA specB wh = Some r" and "relation r = R_identical"
  shows "equivalent r"
proof -
  have "relation r = R_identical \<longrightarrow> equivalent r"
  proof (rule compareVersionSpecifiers.raw_induct
      [where P = "\<lambda>_ _ _ _ r. relation r = R_identical \<longrightarrow> equivalent r", OF _ assms(1)],
      goal_cases)
    case (1 cvs L specA specB wh y)
    from 1(2) show ?case
      by (auto simp: compareWorkspaceSpecs_identical compareByType_identical result_def
          dest: compareAliasSpecs_identical 1(1) [rule_format]
          split: if_splits option.splits alias_step.splits)
  qed
  with assms(2) show ?thesis by simp
qed

lemma startsWith_trim:
  assumes "startsWith s [c]" and "\<not> isWhitespace c"
  shows "startsWith (trim s) [c]"
proof -
  from assms(1) obtain t where s: "s = c # t"
    by (cases s) (auto simp: startsWith_def)
  have "\<exists>ys. dropWhile isWhitespace (rev t @ [c]) = ys @ [c]"
    using assms(2) by (cases "\<forall>x\<in>set t. isWhitespace x") (simp_all add: dropWhile_append)
  then obtain ys where "dropWhile isWhitespace (rev t @ [c]) = ys @ [c]" ..
  then show ?thesis using assms(2)
    by (simp add: trim_def s startsWith_def)
qed

lemma caret_tilde_not_whitespace: "\<not> isWhitespace CHR ''^''" "\<not> isWhitespace CHR ''~''"
  by (simp_all add: isWhitespace_def)

text \<open>
  C5, as amended. Take two distinct raw strings that are both parsed as semver-class
  specifiers, whose ranges have different normalized texts and minimum versions
  \<open>majorA.minorA\<close> and \<open>majorB.minorB\<close>. If both begin with a caret and the majors are
  equal, the comparison is equivalent with relation same-major-caret. If both begin with
  a tilde and the majors and the minors are equal, it is equivalent with relation
  same-minor-tilde. If both begin with a caret, the majors differ, neither range is
  found to be a subset of the other and they do not intersect, it is not equivalent, with
  relation disjoint.
\<close>

theorem compareVersionSpecifiers_same_family:
  assumes "specA \<noteq> specB"
    and "parseVersionSpecifier L specA wh = Some pA"
    and "getSpecCategory (ptype pA) = ''semver''"
    and "parseVersionSpecifier L specB wh = Some pB"
    and "getSpecCategory (ptype pB) = ''semver''"
    and "semver_Range L specA = Some rA" and "semver_Range L specB = Some rB"
    and "range_range L rA \<noteq> range_range L rB"
    and "semver_minVersion L rA = Some (majorA, minorA)"
    and "semver_minVersion L rB = Some (majorB, minorB)"
  shows "(startsWith specA ''^'' \<and> startsWith specB ''^'' \<and> majorA = majorB
            \<longrightarrow> compareVersionSpecifiers L specA specB wh
                  = Some (result True R_same_major_caret))
       \<and> (startsWith specA ''~'' \<and> startsWith specB ''~'' \<and> majorA = majorB \<and> minorA = minorB
            \<longrightarrow> compareVersionSpecifiers L specA specB wh
                  = Some (result True R_same_minor_tilde))
       \<and> (startsWith specA ''^'' \<and> startsWith specB ''^'' \<and> majorA \<noteq> majorB
          \<and> \<not> subsetOrFalse L rA rB \<and> \<not> subsetOrFalse L rB rA
          \<and> \<not> range_intersects L rA rB
            \<longrightarrow> compareVersionSpecifiers L specA specB wh = Some (result False R_disjoint))"
proof -
  have cat: "ptype pA \<noteq> T_workspace" "ptype pB \<noteq> T_workspace"
    "ptype pA \<noteq> T_alias" "ptype pB \<noteq> T_alias"
    using assms(3,5) by (auto simp: getSpecCategory_def)
  have byType: "compareByType L specA specB pA pB = compareSemverSpecs L specA specB"
    using assms(3) by (cases "ptype pA") (auto simp: compareByType_def getSpecCategory_def)
  have cvs: "compareVersionSpecifiers L specA specB wh
               = Some (compareSemverSpecs L specA specB)"
    by (subst compareVersionSpecifiers.simps) (simp add: assms(1-5) cat byType)
  have mm: "extractMajorMinor L specA = Some (majorA, minorA)"
    "extractMajorMinor L specB = Some (majorB, minorB)"
    by (simp_all add: extractMajorMinor_def assms)
  have tilde_caret: "startsWith specA ''~'' \<Longrightarrow> \<not> startsWith (trim specA) ''^''"
    using startsWith_trim [of specA "CHR ''~''"]
    by (auto simp: startsWith_def caret_tilde_not_whitespace)
  show ?thesis
    using startsWith_trim [of specA "CHR ''^''"] startsWith_trim [of specB "CHR ''^''"]
      startsWith_trim [of specA "CHR ''~''"] startsWith_trim [of specB "CHR ''~''"] tilde_caret
    by (auto simp: cvs compareSemverSpecs_def assms(6-10) mm caret_tilde_not_whitespace)
qed

theorem compareVersionSpecifiers_same_family_witness:
  "compareVersionSpecifiers example_libs ''^1.2.3'' ''^1.2.4'' None
     = Some (result True R_same_major_caret)
   \<and> compareVersionSpecifiers example_libs ''^4.17.0'' ''^4.18.0'' None
     = Some (result True R_same_major_caret)
   \<and> compareVersionSpecifiers example_libs ''~4.17.0'' ''~4.17.5'' None
     = Some (result True R_same_minor_tilde)
   \<and> compareVersionSpecifiers example_libs ''^1.0.0'' ''^2.0.0'' None
     = Some (result False R_disjoint)"
proof -
  have p: "parseVersionSpecifier example_libs ''^1.2.3'' None
             = Some (Parsed T_caret ''^1.2.3'' ''>=1.2.3 <2.0.0-0'' None None None)"
    "parseVersionSpecifier example_libs ''^1.2.4'' None
       = Some (Parsed T_caret ''^1.2.4'' ''>=1.2.4 <2.0.0-0'' None None None)"
    "parseVersionSpecifier example_libs ''^4.17.0'' None
       = Some (Parsed T_caret ''^4.17.0'' ''>=4.17.0 <5.0.0-0'' None None None)"
    "parseVersionSpecifier example_libs ''^4.18.0'' None
       = Some (Parsed T_caret ''^4.18.0'' ''>=4.18.0 <5.0.0-0'' None None None)"
    "parseVersionSpecifier example_libs ''~4.17.0'' None
       = Some (Parsed T_tilde ''~4.17.0'' ''>=4.17.0 <4.18.0-0'' None None None)"
    "parseVersionSpecifier example_libs ''~4.17.5'' None
       = Some (Parsed T_tilde ''~4.17.5'' ''>=4.17.5 <4.18.0-0'' None None None)"
    "parseVersionSpecifier example_libs ''^1.0.0'' None
       = Some (Parsed T_caret ''^1.0.0'' ''>=1.0.0 <2.0.0-0'' None None None)"
    "parseVersionSpecifier example_libs ''^2.0.0'' None
       = Some (Parsed T_caret ''^2.0.0'' ''>=2.0.0 <3.0.0-0'' None None None)"
    by code_simp+
  have c: "getSpecCategory T_caret = ''semver''" "getSpecCategory T_tilde = ''semver''"
    by (simp_all add: getSpecCategory_def)
  have 1: "compareVersionSpecifiers example_libs ''^1.2.3'' ''^1.2.4'' None
             = Some (result True R_same_major_caret)"
    using compareVersionSpecifiers_same_family [OF _ p(1) _ p(2), of _ _ 1 2 1 2]
    by (simp add: c example_libs_def example_ranges_def startsWith_def)
  have 2: "compareVersionSpecifiers example_libs ''^4.17.0'' ''^4.18.0'' None
             = Some (result True R_same_major_caret)"
    using compareVersionSpecifiers_same_family [OF _ p(3) _ p(4), of _ _ 4 17 4 18]
    by (simp add: c example_libs_def example_ranges_def startsWith_def)
  have 3: "compareVersionSpecifiers example_libs ''~4.17.0'' ''~4.17.5'' None
             = Some (result True R_same_minor_tilde)"
    using compareVersionSpecifiers_same_family [OF _ p(5) _ p(6), of _ _ 4 17 4 17]
    by (simp add: c example_libs_def example_ranges_def startsWith_def)
  have 4: "compareVersionSpecifiers example_libs ''^1.0.0'' ''^2.0.0'' None
             = Some (result False R_disjoint)"
    using compareVersionSpecifiers_same_family [OF _ p(7) _ p(8), of _ _ 1 0 2 0]
    by (simp add: c example_libs_def example_ranges_def startsWith_def subsetOrFalse_def
        sv_subset_def sv_intersects_def ver_less_def)
  from 1 2 3 4 show ?thesis by simp
qed

text \<open>
  The claim as written asks for same-major-caret on every pair of distinct strings that
  begin with a caret and have the same minimum major. The strings \<^verbatim>\<open>^1.2\<close> and
  \<^verbatim>\<open>^1.2.0\<close> are such a pair, and their ranges have the same normalized text, which the
  comparator tests first: the relation is normalized-equal.
\<close>

theorem compareVersionSpecifiers_caret_normalized_equal:
  "''^1.2'' \<noteq> ''^1.2.0'' \<and> startsWith ''^1.2'' ''^'' \<and> startsWith ''^1.2.0'' ''^''
   \<and> extractMajorMinor example_libs ''^1.2'' = Some (1, 2)
   \<and> extractMajorMinor example_libs ''^1.2.0'' = Some (1, 2)
   \<and> compareVersionSpecifiers example_libs ''^1.2'' ''^1.2.0'' None
       = Some (result True R_normalized_equal)
   \<and> result True R_normalized_equal \<noteq> result True R_same_major_caret"
  by code_simp

text \<open>
  The narrowing policy on the examples of the specification: from \<^verbatim>\<open>*\<close> to
  \<^verbatim>\<open>^4.17.0\<close> the range is narrowed, which is equivalent by default and \<open>narrowed\<close>
  when the option is false; from \<^verbatim>\<open>^4.17.0\<close> to \<^verbatim>\<open>*\<close> it is widened, whatever the
  option.
\<close>

lemma narrowing_policy_examples:
  "map_option (\<lambda>c. comparisonToSemanticChange c None)
       (compareVersionSpecifiers example_libs ''*'' ''^4.17.0'' None) = Some SC_equivalent
   \<and> map_option (\<lambda>c. comparisonToSemanticChange c (Some \<lparr>treatNarrowingAsEquivalent = Some False\<rparr>))
       (compareVersionSpecifiers example_libs ''*'' ''^4.17.0'' None) = Some SC_narrowed
   \<and> map_option (\<lambda>c. comparisonToSemanticChange c None)
       (compareVersionSpecifiers example_libs ''^4.17.0'' ''*'' None) = Some SC_widened
   \<and> map_option (\<lambda>c. comparisonToSemanticChange c (Some \<lparr>treatNarrowingAsEquivalent = Some True\<rparr>))
       (compareVersionSpecifiers example_libs ''^4.17.0'' ''*'' None) = Some SC_widened"
  by code_simp


section \<open>Properties of the dependency differ\<close>

lemma addedOrChanged_names:
  "addedOrChanged L localDeps registryDeps t opts = Some cs \<Longrightarrow> c \<in> set cs \<Longrightarrow>
     dc_name c \<in> fst ` set localDeps"
  by (induction localDeps arbitrary: cs) (auto split: option.splits if_splits)

lemma addedOrChanged_Cons:
  "addedOrChanged L ((n, s) # rest) registryDeps t opts = Some cs \<Longrightarrow>
     \<exists>cs'. addedOrChanged L rest registryDeps t opts = Some cs' \<and>
       (cs = cs' \<or> (\<exists>c. cs = c # cs' \<and> dc_name c = n))"
  by (auto split: option.splits if_splits)

text \<open>
  What the first loop of \<^verbatim>\<open>compareDependencyObject\<close> reports for an entry of the local
  map, by the registry's specifier for the same name: \<open>added\<close> when that is absent or
  empty, \<open>changed\<close> with the mapped comparison when it differs, nothing when it is the
  same string.
\<close>

lemma addedOrChanged_entry:
  assumes "addedOrChanged L localDeps registryDeps t opts = Some cs"
    and "distinct (map fst localDeps)" and "(nm, localSpec) \<in> set localDeps"
  shows "(case orUndefined (map_of registryDeps nm) of
           None \<Rightarrow> \<lparr>dc_name = nm, dc_type = t, dc_action = Added, oldSpec = None,
                     newSpec = Some localSpec, semanticChange = SC_incompatible\<rparr> \<in> set cs
         | Some registrySpec \<Rightarrow>
             if localSpec \<noteq> registrySpec
             then \<exists>cmp. compareVersionSpecifiers L registrySpec localSpec None = Some cmp \<and>
                    \<lparr>dc_name = nm, dc_type = t, dc_action = Changed,
                     oldSpec = Some registrySpec, newSpec = Some localSpec,
                     semanticChange = comparisonToSemanticChange cmp opts\<rparr> \<in> set cs
             else \<forall>c \<in> set cs. dc_name c \<noteq> nm)"
  using assms
proof (induction localDeps arbitrary: cs)
  case Nil
  then show ?case by simp
next
  case (Cons e rest)
  obtain n s where e: "e = (n, s)" by (cases e)
  show ?case
  proof (cases "n = nm")
    case True
    with Cons.prems e have s: "s = localSpec" and notin: "nm \<notin> fst ` set rest"
      by (auto simp: rev_image_eqI)
    from Cons.prems(1) e True s notin show ?thesis
      by (auto split: option.splits if_splits dest: addedOrChanged_names)
  next
    case False
    with Cons.prems e have mem: "(nm, localSpec) \<in> set rest" and d: "distinct (map fst rest)"
      by auto
    from addedOrChanged_Cons [OF Cons.prems(1) [unfolded e]]
    have "\<exists>cs'. addedOrChanged L rest registryDeps t opts = Some cs'
             \<and> set cs' \<subseteq> set cs \<and> (\<forall>c \<in> set cs - set cs'. dc_name c = n)"
      by auto
    then obtain cs' where cs': "addedOrChanged L rest registryDeps t opts = Some cs'"
      and sub: "set cs' \<subseteq> set cs" and only: "\<forall>c \<in> set cs - set cs'. dc_name c = n"
      by blast
    from Cons.IH [OF cs' d mem] sub only False show ?thesis
      by (auto split: option.splits if_splits)
  qed
qed

text \<open>
  For maps whose registry specifiers are not empty, the differ reports what the
  specification says: added and removed names with the change \<open>incompatible\<close>, a changed
  specifier with the mapped comparison, and nothing for a specifier that is the same
  string on both sides.
\<close>

lemma removedDeps_names: "c \<in> set (removedDeps localDeps registryDeps t) \<Longrightarrow> dc_name c \<notin> fst ` set localDeps"
  by (force simp: removedDeps_def)

lemma compareDependencyObject_nonempty_specs:
  assumes res: "compareDependencyObject L localDeps registryDeps t opts = Some cs"
    and dl: "distinct (map fst localDeps)" and dr: "distinct (map fst registryDeps)"
    and ne: "\<forall>(n, s) \<in> set registryDeps. s \<noteq> []"
  shows "(\<forall>nm s. (nm, s) \<in> set localDeps \<and> nm \<notin> fst ` set registryDeps \<longrightarrow>
            \<lparr>dc_name = nm, dc_type = t, dc_action = Added, oldSpec = None,
             newSpec = Some s, semanticChange = SC_incompatible\<rparr> \<in> set cs)
       \<and> (\<forall>nm s. (nm, s) \<in> set registryDeps \<and> nm \<notin> fst ` set localDeps \<longrightarrow>
            \<lparr>dc_name = nm, dc_type = t, dc_action = Removed, oldSpec = Some s,
             newSpec = None, semanticChange = SC_incompatible\<rparr> \<in> set cs)
       \<and> (\<forall>nm s s'. (nm, s) \<in> set localDeps \<and> (nm, s') \<in> set registryDeps \<and> s \<noteq> s' \<longrightarrow>
            (\<exists>cmp. compareVersionSpecifiers L s' s None = Some cmp \<and>
               \<lparr>dc_name = nm, dc_type = t, dc_action = Changed, oldSpec = Some s',
                newSpec = Some s,
                semanticChange = comparisonToSemanticChange cmp opts\<rparr> \<in> set cs))
       \<and> (\<forall>nm s. (nm, s) \<in> set localDeps \<and> (nm, s) \<in> set registryDeps \<longrightarrow>
            (\<forall>c \<in> set cs. dc_name c \<noteq> nm))"
proof -
  from res obtain cs1 where cs1: "addedOrChanged L localDeps registryDeps t opts = Some cs1"
    and cs: "cs = cs1 @ removedDeps localDeps registryDeps t"
    by (auto simp: compareDependencyObject_def)
  have absent: "orUndefined (map_of registryDeps nm) = None" if "nm \<notin> fst ` set registryDeps" for nm
  proof -
    from that have "map_of registryDeps nm = None" by (simp add: map_of_eq_None_iff)
    then show ?thesis by (simp add: orUndefined_def)
  qed
  have present: "orUndefined (map_of registryDeps nm) = Some s'" if "(nm, s') \<in> set registryDeps" for nm s'
    using that dr ne by (auto simp: orUndefined_def)
  have 1: "\<lparr>dc_name = nm, dc_type = t, dc_action = Added, oldSpec = None,
             newSpec = Some s, semanticChange = SC_incompatible\<rparr> \<in> set cs"
    if "(nm, s) \<in> set localDeps" "nm \<notin> fst ` set registryDeps" for nm s
    using addedOrChanged_entry [OF cs1 dl that(1)] absent [OF that(2)] by (simp add: cs)
  have 2: "\<lparr>dc_name = nm, dc_type = t, dc_action = Removed, oldSpec = Some s,
             newSpec = None, semanticChange = SC_incompatible\<rparr> \<in> set cs"
    if "(nm, s) \<in> set registryDeps" "nm \<notin> fst ` set localDeps" for nm s
    using that by (force simp: cs removedDeps_def)
  have 3: "\<exists>cmp. compareVersionSpecifiers L s' s None = Some cmp \<and>
               \<lparr>dc_name = nm, dc_type = t, dc_action = Changed, oldSpec = Some s',
                newSpec = Some s,
                semanticChange = comparisonToSemanticChange cmp opts\<rparr> \<in> set cs"
    if "(nm, s) \<in> set localDeps" "(nm, s') \<in> set registryDeps" "s \<noteq> s'" for nm s s'
    using addedOrChanged_entry [OF cs1 dl that(1)] present [OF that(2)] that(3) by (auto simp: cs)
  have 4: "\<forall>c \<in> set cs. dc_name c \<noteq> nm"
    if "(nm, s) \<in> set localDeps" "(nm, s) \<in> set registryDeps" for nm s
  proof -
    have "\<forall>c \<in> set cs1. dc_name c \<noteq> nm"
      using addedOrChanged_entry [OF cs1 dl that(1)] present [OF that(2)] by simp
    moreover have "nm \<in> fst ` set localDeps" using that(1) by force
    ultimately show ?thesis
      by (auto simp: cs dest: removedDeps_names)
  qed
  from 1 2 3 4 show ?thesis by blast
qed

text \<open>
  C8. The claim holds for maps whose registry specifiers are not the empty string, by
  \<open>compareDependencyObject_nonempty_specs\<close>. The test for an added dependency is \<^verbatim>\<open>!registrySpec\<close>, which
  is also true of the empty string (a specifier that the parser of this repository
  handles): a name with the empty specifier on both sides is reported as added, where the
  claim and the comment of the source ask for no entry, and a name whose registry
  specifier is empty and whose local one is not is reported as added instead of changed.
\<close>

theorem compareDependencyObject_empty_registry_spec:
  "compareDependencyObject L [(''foo'', '''')] [(''foo'', '''')] Dependencies semanticOpts =
     Some [\<lparr>dc_name = ''foo'', dc_type = Dependencies, dc_action = Added, oldSpec = None,
            newSpec = Some '''', semanticChange = SC_incompatible\<rparr>]
   \<and> compareDependencyObject L [(''foo'', ''^1.0.0'')] [(''foo'', '''')] Dependencies
       semanticOpts =
     Some [\<lparr>dc_name = ''foo'', dc_type = Dependencies, dc_action = Added, oldSpec = None,
            newSpec = Some ''^1.0.0'', semanticChange = SC_incompatible\<rparr>]"
  by (simp add: compareDependencyObject_def removedDeps_def orUndefined_def)



section \<open>Properties of the manifest differ\<close>





lemma set_foldl_setKey: "set (foldl setKey ks xs) = set ks \<union> set xs"
  by (induction xs arbitrary: ks) (auto simp: setKey_def)






















section \<open>Properties of the content differ\<close>

lemma distinct_foldl_setKey: "distinct ks \<Longrightarrow> distinct (foldl setKey ks xs)"
  by (induction xs arbitrary: ks) (auto simp: setKey_def)

lemma set_allPaths: "set (allPaths l r) = fst ` set l \<union> fst ` set r"
  by (simp add: allPaths_def set_foldl_setKey)

lemma distinct_allPaths: "distinct (allPaths l r)"
  by (simp add: allPaths_def distinct_foldl_setKey)

lemma diffPaths_pathChange:
  "diffPaths l r ps (cs, only) =
     (cs @ concat (map (pathChange l r) ps),
      only \<and> (\<forall>c \<in> set (concat (map (pathChange l r) ps)). isPackageJsonPath (file_path c)))"
proof (induction ps arbitrary: cs only)
  case Nil
  then show ?case by simp
next
  case (Cons p ps)
  show ?case
    by (cases "map_of r p"; cases "map_of l p")
       (auto simp: Cons.IH pathChange_def Let_def buffersEqual_def)
qed

text \<open>
  The part of C9 that the code meets: the changes are the classification of each path of
  the union of both trees, each path once, \<open>identical\<close> says that there is no change, and
  \<open>packageJsonOnly\<close> says that there is a change and that every changed path passes the
  test \<open>isPackageJsonPath\<close> of the loop.
\<close>

lemma compareExtracted_classifies:
  "fileChanges (compareExtracted l r) = concat (map (pathChange l r) (allPaths l r))
   \<and> identical (compareExtracted l r) = (fileChanges (compareExtracted l r) = [])
   \<and> packageJsonOnly (compareExtracted l r)
       = (fileChanges (compareExtracted l r) \<noteq> []
          \<and> (\<forall>c \<in> set (fileChanges (compareExtracted l r)). isPackageJsonPath (file_path c)))"
  by (auto simp: compareExtracted_def diffPaths_pathChange)




section \<open>Properties of the orchestrator\<close>

lemma compareTarballs_skips_comparePackageJson:
  "opt_packageJsonOnly options = Some True \<Longrightarrow>
     ComparePackageJson \<notin> set (snd (compareTarballs E options a b))"
  by (auto simp: compareTarballs_def Let_def split: option.splits)

lemma fetchRegistry_events: "ComparePackageJson \<notin> set (snd (fetchRegistry E p r))"
  by (auto simp: fetchRegistry_def split: sum.splits option.splits)

lemma scopeRegistry_events: "ComparePackageJson \<notin> set (snd (scopeRegistry E p r))"
  by (auto simp: scopeRegistry_def split: option.splits)

text \<open>
  With the option \<open>packageJsonOnly\<close> set, no run of the orchestrator calls
  \<^verbatim>\<open>comparePackageJson\<close>: the test of step 6 is
  \<^verbatim>\<open>fileComparison.packageJsonOnly && !options.packageJsonOnly\<close>.
\<close>

lemma needsPublishImpl_packageJsonOnly_no_comparison:
  assumes "opt_packageJsonOnly options = Some True"
  shows "ComparePackageJson \<notin> set (snd (needsPublishImpl E options))"
  using compareTarballs_skips_comparePackageJson [OF assms, of E]
    fetchRegistry_events [of E] scopeRegistry_events [of E]
  by (auto simp: needsPublishImpl_def Let_def split: option.splits sum.splits prod.splits)
     (metis snd_conv)+


text \<open>
  C10. When the local manifest, given in the options or read from the working directory,
  has a truthy \<^verbatim>\<open>private\<close> field, the orchestrator resolves to
  \<^verbatim>\<open>{needsPublish: false, reason: 'Package is private'}\<close> without a list of changes, and
  the only call it has made is the read of the manifest, when the options do not give
  one: no registry fetch, no packing, no hashing, no comparison.
\<close>

theorem needsPublishImpl_private:
  assumes "(case opt_package options of
              Some pkg \<Rightarrow> Some pkg
            | None \<Rightarrow> readPackageJson E (orElse (opt_cwd options) (process_cwd E)))
           = Some localPkg"
    and "truthy (getField localPkg ''private'')"
  shows "needsPublishImpl E options
           = (Resolved \<lparr>needsPublish = False, reason = ''Package is private'',
                changes = None\<rparr>,
              case opt_package options of Some pkg \<Rightarrow> [] | None \<Rightarrow> [ReadLocalManifest])"
  using assms by (auto simp: needsPublishImpl_def Let_def split: option.splits)

theorem needsPublishImpl_private_witness:
  "(case opt_package (default_options\<lparr>opt_package := Some manifest_private\<rparr>) of
      Some pkg \<Rightarrow> Some pkg
    | None \<Rightarrow> readPackageJson (example_env tree_code_edited)
               (orElse (opt_cwd (default_options\<lparr>opt_package := Some manifest_private\<rparr>))
                  (process_cwd (example_env tree_code_edited))))
     = Some manifest_private
   \<and> truthy (getField manifest_private ''private'')
   \<and> needsPublishImpl (example_env tree_code_edited)
         (default_options\<lparr>opt_package := Some manifest_private\<rparr>)
       = (Resolved \<lparr>needsPublish = False, reason = ''Package is private'', changes = None\<rparr>,
          [])"
proof -
  have a: "(case opt_package (default_options\<lparr>opt_package := Some manifest_private\<rparr>) of
      Some pkg \<Rightarrow> Some pkg
    | None \<Rightarrow> readPackageJson (example_env tree_code_edited)
               (orElse (opt_cwd (default_options\<lparr>opt_package := Some manifest_private\<rparr>))
                  (process_cwd (example_env tree_code_edited))))
     = Some manifest_private"
    by (simp add: default_options_def)
  have b: "truthy (getField manifest_private ''private'')"
    by (simp add: truthy_def getField_def manifest_private_def)
  from needsPublishImpl_private [OF a b] a b show ?thesis
    by (simp add: default_options_def)
qed

end
